theory Spec2Isabelle
  imports Complex_Main
begin

section \<open>Python values, exceptions and string helpers\<close>

text \<open>
  Header values are heterogeneous: numbers, strings and tuples. Python floats are
  modelled as reals (rounding is not modelled).
\<close>

datatype pyval = PNum real | PStr string | PTup "pyval list"

text \<open>
  The exception kinds the code can meet. \<open>ValueError\<close> stands for the kind caught by
  \<open>except ValueError\<close>; \<open>OtherError\<close> stands for any failure of a collaborator that is
  not of that kind (kind name and message).
\<close>

datatype exn =
    ValueError string
  | KeyError string
  | TypeError string
  | IndexError string
  | ZeroDivisionError string
  | UnboundLocalError string
  | OtherError string string

fun is_ValueError :: "exn \<Rightarrow> bool" where
  "is_ValueError (ValueError m) = True"
| "is_ValueError e = False"

text \<open>\<open>str(e)\<close> of a caught \<open>ValueError\<close>.\<close>

fun exn_message :: "exn \<Rightarrow> string" where
  "exn_message (ValueError m) = m"
| "exn_message (KeyError m) = m"
| "exn_message (TypeError m) = m"
| "exn_message (IndexError m) = m"
| "exn_message (ZeroDivisionError m) = m"
| "exn_message (UnboundLocalError m) = m"
| "exn_message (OtherError k m) = m"

text \<open>Sequencing of fallible steps: the first exception ends the computation.\<close>

definition ebind :: "exn + 'a \<Rightarrow> ('a \<Rightarrow> exn + 'b) \<Rightarrow> exn + 'b" where
  "ebind r f = (case r of Inl e \<Rightarrow> Inl e | Inr x \<Rightarrow> f x)"

text \<open>\<open>s.split(c)\<close> for a one-character separator: one more part than separators.\<close>

fun split_on :: "char \<Rightarrow> string \<Rightarrow> string list" where
  "split_on c [] = [[]]"
| "split_on c (x # xs) =
     (if x = c then [] # split_on c xs
      else (case split_on c xs of [] \<Rightarrow> [[x]] | p # ps \<Rightarrow> (x # p) # ps))"

text \<open>\<open>s.endswith(suf)\<close>.\<close>

definition endswith :: "string \<Rightarrow> string \<Rightarrow> bool" where
  "endswith s suf = (length suf \<le> length s \<and> drop (length s - length suf) s = suf)"

text \<open>\<open>str(n)\<close> of a Python int.\<close>

fun dec_digits :: "nat \<Rightarrow> string" where
  "dec_digits n =
     (if n < 10 then [''0123456789'' ! n]
      else dec_digits (n div 10) @ [''0123456789'' ! (n mod 10)])"

declare dec_digits.simps [simp del]

definition str_int :: "int \<Rightarrow> string" where
  "str_int i = (if i < 0 then CHR ''-'' # dec_digits (nat (- i)) else dec_digits (nat i))"

text \<open>\<open>s.zfill(w)\<close>: zeros are inserted after a leading sign.\<close>

definition zfill :: "nat \<Rightarrow> string \<Rightarrow> string" where
  "zfill w s =
     (if w \<le> length s then s
      else (case s of
              [] \<Rightarrow> replicate w CHR ''0''
            | c # rest \<Rightarrow>
                if c = CHR ''+'' \<or> c = CHR ''-''
                then c # replicate (w - length s) CHR ''0'' @ rest
                else replicate (w - length s) CHR ''0'' @ s))"

text \<open>\<open>os.path.join(a, b)\<close>, \<open>os.path.basename\<close> and the extension part of
  \<open>os.path.splitext\<close> (POSIX).\<close>

definition path_join :: "string \<Rightarrow> string \<Rightarrow> string" where
  "path_join a b =
     (if b \<noteq> [] \<and> hd b = CHR ''/'' then b
      else if a = [] \<or> last a = CHR ''/'' then a @ b
      else a @ ''/'' @ b)"

definition basename :: "string \<Rightarrow> string" where
  "basename p = rev (takeWhile (\<lambda>c. c \<noteq> CHR ''/'') (rev p))"

definition splitext_ext :: "string \<Rightarrow> string" where
  "splitext_ext p =
     (let r = rev (basename p);
          e = takeWhile (\<lambda>c. c \<noteq> CHR ''.'') r;
          rest = dropWhile (\<lambda>c. c \<noteq> CHR ''.'') r
      in (case rest of
            [] \<Rightarrow> []
          | d # stem \<Rightarrow> if list_all (\<lambda>c. c = CHR ''.'') stem then [] else CHR ''.'' # rev e))"

section \<open>Date reformatting\<close>

text \<open>
  \<open>format_date\<close> nested in \<open>get_sxm_parameters\<close>: a bare \<open>except\<close> returns the argument
  whenever the split does not unpack into exactly three parts (or the argument has no
  \<open>split\<close> at all).
\<close>

definition format_date_sxm :: "pyval \<Rightarrow> pyval" where
  "format_date_sxm v =
     (case v of
        PStr s \<Rightarrow>
          (case split_on CHR ''.'' s of
             [day, month, year] \<Rightarrow> PStr (year @ ''.'' @ month @ ''.'' @ day)
           | _ \<Rightarrow> v)
      | _ \<Rightarrow> v)"

text \<open>
  \<open>format_date\<close> nested in \<open>get_dat_parameters\<close>: the string is first split at the
  blank into a date part and a time part.
\<close>

definition format_date_dat :: "pyval \<Rightarrow> pyval" where
  "format_date_dat v =
     (case v of
        PStr s \<Rightarrow>
          (case split_on CHR '' '' s of
             [date_part, time_part] \<Rightarrow>
               (case split_on CHR ''.'' date_part of
                  [day, month, year] \<Rightarrow>
                    PStr (year @ ''.'' @ month @ ''.'' @ day @ ''_'' @ time_part)
                | _ \<Rightarrow> v)
           | _ \<Rightarrow> v)
      | _ \<Rightarrow> v)"

section \<open>Loaded records and collaborators\<close>

text \<open>
  A sample is a float or not-a-number (\<open>None\<close>); an array is kept flattened, which is
  all that the statistics below look at.
\<close>

type_synonym sample = "real option"
type_synonym array = "sample list"

text \<open>
  The fields copied from the format-specific parser object onto \<open>NanonisData\<close> that the
  report builder reads: \<open>fname\<close>, \<open>header\<close> and \<open>signals\<close>.
\<close>

record data =
  fname :: string
  header :: "string \<rightharpoonup> pyval"
  signals :: "string \<rightharpoonup> array"

datatype cmap = Nanox | Bwr

text \<open>
  What a figure holds when it is saved: an \<open>imshow\<close> call with its arguments (array,
  origin, vmin, vmax, aspect, colour map, whether the colour bar was given power limits),
  a line plot (x, y, axis labels, logarithmic y scale, grid), or nothing drawn.
  An image buffer is the PNG of a figure.
\<close>

datatype figure =
    Imshow array string sample sample pyval cmap bool
  | Curve array array string string bool bool
  | Blank

datatype image = Png figure

text \<open>
  The collaborators, taken as parameters: the filesystem glob, the three parsers keyed by
  extension, the analysis helpers of the package, the plotting backend's save, the
  presentation backend's save, and Python's number parsing and formatting.
\<close>

record env =
  glob :: "string \<Rightarrow> string list"
  load_sxm :: "string \<Rightarrow> exn + data"
  load_dat :: "string \<Rightarrow> exn + data"
  load_3ds :: "string \<Rightarrow> exn + data"
  topography_get_z :: "data \<Rightarrow> string \<Rightarrow> string \<Rightarrow> exn + array"
  didvmap_get_map :: "data \<Rightarrow> exn + array"
  z_spectrum_get_iz :: "data \<Rightarrow> exn + (array \<times> array)"
  spectrum_didv_scaled :: "data \<Rightarrow> exn + (array \<times> array)"
  spectrum_didv_normalized :: "data \<Rightarrow> exn + (array \<times> array)"
  spectrum_iv_raw :: "data \<Rightarrow> exn + (array \<times> array)"
  savefig :: "figure \<Rightarrow> exn option"
  pptx_save :: "string \<Rightarrow> exn option"
  float_of_str :: "string \<Rightarrow> real option"
  fmt_float :: "real \<Rightarrow> string"
  fmt_f0 :: "real \<Rightarrow> string"
  fmt_f1 :: "real \<Rightarrow> string"
  str_of :: "pyval \<Rightarrow> string"

section \<open>The loader: \<open>NanonisData.__init__\<close>\<close>

datatype file_number = NoNumber | IntNumber int | StrNumber string

text \<open>\<open>str(file_number).zfill(4)\<close>.\<close>

fun number_str :: "file_number \<Rightarrow> string" where
  "number_str (IntNumber i) = zfill 4 (str_int i)"
| "number_str (StrNumber s) = zfill 4 s"
| "number_str NoNumber = zfill 4 ''None''"

text \<open>\<open>if keyword:\<close> holds for a non-empty string.\<close>

fun truthy :: "string option \<Rightarrow> bool" where
  "truthy None = False"
| "truthy (Some k) = (k \<noteq> [])"

definition glob_pattern :: "string \<Rightarrow> file_number \<Rightarrow> string option \<Rightarrow> string" where
  "glob_pattern base_path n keyword =
     (case keyword of
        Some k \<Rightarrow>
          if truthy keyword
          then path_join base_path (''*'' @ k @ ''*_'' @ number_str n @ ''.*'')
          else path_join base_path (''*_'' @ number_str n @ ''.*'')
      | None \<Rightarrow> path_join base_path (''*_'' @ number_str n @ ''.*''))"

definition no_file_message :: "file_number \<Rightarrow> string option \<Rightarrow> string" where
  "no_file_message n keyword =
     (case keyword of
        Some k \<Rightarrow>
          if truthy keyword
          then ''No file found with number '' @ number_str n @ '' and keyword '' @ [CHR 0x27]
                 @ k @ [CHR 0x27]
          else ''No file found with number '' @ number_str n
      | None \<Rightarrow> ''No file found with number '' @ number_str n)"

definition multiple_files_warning :: "string list \<Rightarrow> string list" where
  "multiple_files_warning ms =
     ''Warning: Multiple files found. Files found:''
       # map (\<lambda>f. ''- '' @ basename f) ms
       @ [''Using the first one: '' @ basename (hd ms)]"

text \<open>
  Lines 26 to 52: the printed lines and either the exception raised or the value of
  \<open>filepath\<close>.
\<close>

definition resolve_filepath ::
  "env \<Rightarrow> string \<Rightarrow> file_number \<Rightarrow> string option \<Rightarrow> string list \<times> (exn + string)" where
  "resolve_filepath E base_path n keyword =
     (case n of
        NoNumber \<Rightarrow> ([], Inr base_path)
      | _ \<Rightarrow>
        (case glob E (glob_pattern base_path n keyword) of
           [] \<Rightarrow> ([], Inl (ValueError (no_file_message n keyword)))
         | f # fs \<Rightarrow>
             (if 1 < length (f # fs) then multiple_files_warning (f # fs) else [], Inr f)))"

text \<open>Lines 54 to 65: the parser is chosen by the extension of \<open>filepath\<close>.\<close>

definition load_by_extension :: "env \<Rightarrow> string \<Rightarrow> exn + data" where
  "load_by_extension E filepath =
     (let extension = splitext_ext filepath in
      if extension = ''.sxm'' then load_sxm E filepath
      else if extension = ''.dat'' then load_dat E filepath
      else if extension = ''.3ds'' then load_3ds E filepath
      else Inl (ValueError (''Unsupported file extension: '' @ extension)))"

definition NanonisData ::
  "env \<Rightarrow> string \<Rightarrow> file_number \<Rightarrow> string option \<Rightarrow> string list \<times> (exn + data)" where
  "NanonisData E base_path n keyword =
     (case resolve_filepath E base_path n keyword of
        (out, Inl e) \<Rightarrow> (out, Inl e)
      | (out, Inr filepath) \<Rightarrow> (out, load_by_extension E filepath))"

section \<open>Parameter extraction\<close>

text \<open>\<open>d[k]\<close> on a dict, \<open>v[i]\<close> on a header value, and \<open>a / b\<close> on two header values.\<close>

definition lookup_key :: "(string \<rightharpoonup> 'v) \<Rightarrow> string \<Rightarrow> exn + 'v" where
  "lookup_key m k = (case m k of None \<Rightarrow> Inl (KeyError k) | Some v \<Rightarrow> Inr v)"

fun py_getitem :: "pyval \<Rightarrow> nat \<Rightarrow> exn + pyval" where
  "py_getitem (PTup xs) i =
     (if i < length xs then Inr (xs ! i) else Inl (IndexError ''tuple index out of range''))"
| "py_getitem (PStr s) i =
     (if i < length s then Inr (PStr [s ! i]) else Inl (IndexError ''string index out of range''))"
| "py_getitem (PNum x) i = Inl (TypeError ''object is not subscriptable'')"

fun py_truediv :: "pyval \<Rightarrow> pyval \<Rightarrow> exn + real" where
  "py_truediv (PNum x) (PNum y) =
     (if y = 0 then Inl (ZeroDivisionError ''division by zero'') else Inr (x / y))"
| "py_truediv a b = Inl (TypeError ''unsupported operand type(s) for /'')"

text \<open>
  Line 121: \<open>(pixels[0]/pixels[1])*(range[1]/range[0])\<close>, operands evaluated left to
  right. The header values are taken as tuples of Python numbers, for which a zero divisor
  raises \<open>ZeroDivisionError\<close>.
\<close>

definition aspect_ratio_of :: "(string \<rightharpoonup> pyval) \<Rightarrow> exn + pyval" where
  "aspect_ratio_of params =
     ebind (lookup_key params ''pixels'') (\<lambda>px.
     ebind (py_getitem px 0) (\<lambda>p0.
     ebind (lookup_key params ''pixels'') (\<lambda>px'.
     ebind (py_getitem px' 1) (\<lambda>p1.
     ebind (py_truediv p0 p1) (\<lambda>a.
     ebind (lookup_key params ''range'') (\<lambda>rg.
     ebind (py_getitem rg 1) (\<lambda>r1.
     ebind (lookup_key params ''range'') (\<lambda>rg'.
     ebind (py_getitem rg' 0) (\<lambda>r0.
     ebind (py_truediv r1 r0) (\<lambda>b.
     Inr (PNum (a * b))))))))))))"

definition get_sxm_parameters :: "data \<Rightarrow> exn + (string \<rightharpoonup> pyval)" where
  "get_sxm_parameters d =
     ebind (lookup_key (header d) ''scan_pixels'') (\<lambda>pixels.
     ebind (lookup_key (header d) ''scan_range'') (\<lambda>range.
     ebind (lookup_key (header d) ''scan_dir'') (\<lambda>direction.
     ebind (lookup_key (header d) ''scan_angle'') (\<lambda>angle.
     ebind (lookup_key (header d) ''bias>bias (v)'') (\<lambda>bias.
     ebind (lookup_key (header d) ''z-controller>setpoint'') (\<lambda>current.
     ebind (lookup_key (header d) ''rec_time'') (\<lambda>scan_time.
     ebind (lookup_key (header d) ''rec_date'') (\<lambda>rec_date.
       let params = Map.empty
             (''pixels'' \<mapsto> pixels, ''range'' \<mapsto> range, ''direction'' \<mapsto> direction,
              ''angle'' \<mapsto> angle, ''bias'' \<mapsto> bias, ''current'' \<mapsto> current,
              ''scan_time'' \<mapsto> scan_time, ''scan_date'' \<mapsto> format_date_sxm rec_date)
       in ebind (aspect_ratio_of params) (\<lambda>a.
          Inr (params(''aspect_ratio'' \<mapsto> a)))))))))))"

text \<open>
  Lines 147 to 169. The dict display of the first branch names \<open>sweep_num\<close> twice; the
  entries are stored in the order written, so the later one replaces the earlier.
\<close>

definition get_dat_parameters :: "data \<Rightarrow> exn + (string \<rightharpoonup> pyval)" where
  "get_dat_parameters d =
     (if ''Z rel (m)'' \<in> dom (signals d) then
        ebind (lookup_key (header d) ''Bias>Bias (V)'') (\<lambda>bias.
        ebind (lookup_key (header d) ''Z-Controller>Setpoint'') (\<lambda>current.
        ebind (lookup_key (header d) ''Bias Spectroscopy>Number of sweeps'') (\<lambda>sweep_num_bias.
        ebind (lookup_key (header d) ''Z Spectroscopy>Initial Z-offset (m)'') (\<lambda>offset.
        ebind (lookup_key (header d) ''Z Spectroscopy>Sweep distance (m)'') (\<lambda>sweep_z.
        ebind (lookup_key (header d) ''Z Spectroscopy>Number of sweeps'') (\<lambda>sweep_num_z.
        ebind (lookup_key (header d) ''Comment01'') (\<lambda>comment.
        ebind (lookup_key (header d) ''Saved Date'') (\<lambda>saved_date.
          Inr (Map.empty
             (''bias'' \<mapsto> bias, ''current'' \<mapsto> current, ''sweep_num'' \<mapsto> sweep_num_bias,
              ''offset'' \<mapsto> offset, ''sweep_z'' \<mapsto> sweep_z, ''sweep_num'' \<mapsto> sweep_num_z,
              ''comment'' \<mapsto> comment, ''saved_date'' \<mapsto> format_date_dat saved_date))))))))))
      else
        ebind (lookup_key (header d) ''Bias>Bias (V)'') (\<lambda>bias.
        ebind (lookup_key (header d) ''Z-Controller>Setpoint'') (\<lambda>current.
        ebind (lookup_key (header d) ''Bias Spectroscopy>Sweep Start (V)'') (\<lambda>sweep_start.
        ebind (lookup_key (header d) ''Bias Spectroscopy>Sweep End (V)'') (\<lambda>sweep_end.
        ebind (lookup_key (header d) ''Bias Spectroscopy>Number of sweeps'') (\<lambda>sweep_num.
        ebind (lookup_key (header d) ''Comment01'') (\<lambda>comment.
        ebind (lookup_key (header d) ''Saved Date'') (\<lambda>saved_date.
          Inr (Map.empty
             (''bias'' \<mapsto> bias, ''current'' \<mapsto> current, ''sweep_start'' \<mapsto> sweep_start,
              ''sweep_end'' \<mapsto> sweep_end, ''sweep_num'' \<mapsto> sweep_num,
              ''comment'' \<mapsto> comment, ''saved_date'' \<mapsto> format_date_dat saved_date))))))))))"

definition get_3ds_parameters :: "data \<Rightarrow> exn + (string \<rightharpoonup> pyval)" where
  "get_3ds_parameters d = Inr Map.empty"

definition get_scan_parameters :: "data \<Rightarrow> exn + (string \<rightharpoonup> pyval)" where
  "get_scan_parameters d =
     (if endswith (fname d) ''.sxm'' then get_sxm_parameters d
      else if endswith (fname d) ''.dat'' then get_dat_parameters d
      else if endswith (fname d) ''.3ds'' then get_3ds_parameters d
      else Inl (ValueError (''Unsupported file type: '' @ fname d)))"

section \<open>Caption text\<close>

text \<open>\<open>float(v)\<close>: a number is kept, a string is parsed or rejected with \<open>ValueError\<close>.\<close>

definition py_float :: "env \<Rightarrow> pyval \<Rightarrow> exn + real" where
  "py_float E v =
     (case v of
        PNum x \<Rightarrow> Inr x
      | PStr s \<Rightarrow>
          (case float_of_str E s of
             Some x \<Rightarrow> Inr x
           | None \<Rightarrow>
               Inl (ValueError (''could not convert string to float: '' @ [CHR 0x27] @ s
                                  @ [CHR 0x27])))
      | PTup xs \<Rightarrow> Inl (TypeError ''float() argument must be a string or a real number''))"

text \<open>\<open>v * 1e9\<close> with a float factor.\<close>

definition py_mul_float :: "pyval \<Rightarrow> real \<Rightarrow> exn + real" where
  "py_mul_float v c =
     (case v of
        PNum x \<Rightarrow> Inr (x * c)
      | _ \<Rightarrow> Inl (TypeError ''can't multiply sequence by non-int of type 'float' ''))"

text \<open>A value inside an f-string.\<close>

definition py_str :: "env \<Rightarrow> pyval \<Rightarrow> string" where
  "py_str E v = (case v of PStr s \<Rightarrow> s | _ \<Rightarrow> str_of E v)"

fun join_with :: "string \<Rightarrow> string list \<Rightarrow> string" where
  "join_with sep [] = []"
| "join_with sep [x] = x"
| "join_with sep (x # y # ys) = x @ sep @ join_with sep (y # ys)"

definition current_text :: "env \<Rightarrow> real \<Rightarrow> string" where
  "current_text E current =
     (if 1 / 10 ^ 9 \<le> \<bar>current\<bar> then fmt_f0 E (current * 10 ^ 9) @ '' nA''
      else fmt_f0 E (current * 10 ^ 12) @ '' pA'')"

definition get_sxm_info_text :: "env \<Rightarrow> (string \<rightharpoonup> pyval) \<Rightarrow> exn + string" where
  "get_sxm_info_text E params =
     ebind (lookup_key params ''bias'') (\<lambda>b.
     ebind (py_float E b) (\<lambda>bias.
     ebind (lookup_key params ''current'') (\<lambda>c.
     ebind (py_float E c) (\<lambda>current.
     ebind (lookup_key params ''range'') (\<lambda>rg.
     ebind (py_getitem rg 0) (\<lambda>r0.
     ebind (py_mul_float r0 (10 ^ 9)) (\<lambda>x0.
     ebind (lookup_key params ''range'') (\<lambda>rg'.
     ebind (py_getitem rg' 1) (\<lambda>r1.
     ebind (py_mul_float r1 (10 ^ 9)) (\<lambda>x1.
     ebind (lookup_key params ''direction'') (\<lambda>direction.
     ebind (lookup_key params ''angle'') (\<lambda>a.
     ebind (py_float E a) (\<lambda>angle.
     ebind (lookup_key params ''scan_date'') (\<lambda>scan_date.
     ebind (lookup_key params ''scan_time'') (\<lambda>scan_time.
       Inr (join_with '' ''
         [fmt_float E bias @ '' V /'',
          current_text E current,
          [CHR 0x0A] @ fmt_f0 E x0 @ '' x '' @ fmt_f0 E x1 @ '' nm'' @ [CHR 0xC2, CHR 0xB2],
          ''('' @ py_str E direction @ '', '' @ fmt_f1 E angle @ [CHR 0xCB, CHR 0x9A] @ '')'',
          [CHR 0x0A] @ ''('' @ py_str E scan_date @ ''_'' @ py_str E scan_time @ '')''
         ]))))))))))))))))"

definition get_dat_info_text :: "env \<Rightarrow> (string \<rightharpoonup> pyval) \<Rightarrow> exn + string" where
  "get_dat_info_text E params =
     (if ''sweep_z'' \<in> dom params then
        ebind (lookup_key params ''bias'') (\<lambda>b.
        ebind (py_float E b) (\<lambda>bias.
        ebind (lookup_key params ''current'') (\<lambda>c.
        ebind (py_float E c) (\<lambda>current.
        ebind (lookup_key params ''saved_date'') (\<lambda>saved_date.
          Inr (join_with '' ''
            [fmt_float E bias @ '' V /'',
             current_text E current,
             [CHR 0x0A] @ ''('' @ py_str E saved_date @ '')''
            ]))))))
      else
        ebind (lookup_key params ''bias'') (\<lambda>b.
        ebind (py_float E b) (\<lambda>bias.
        ebind (lookup_key params ''current'') (\<lambda>c.
        ebind (py_float E c) (\<lambda>current.
        ebind (lookup_key params ''sweep_start'') (\<lambda>s0.
        ebind (py_float E s0) (\<lambda>sweep_start.
        ebind (lookup_key params ''sweep_end'') (\<lambda>s1.
        ebind (py_float E s1) (\<lambda>sweep_end.
        ebind (lookup_key params ''sweep_num'') (\<lambda>sweep_num.
        ebind (lookup_key params ''saved_date'') (\<lambda>saved_date.
          Inr (join_with '' ''
            [fmt_float E bias @ '' V /'',
             current_text E current,
             [CHR 0x0A] @ fmt_float E sweep_start @ '' V to '' @ fmt_float E sweep_end
               @ '' V (sweeps: '' @ py_str E sweep_num @ '')'',
             [CHR 0x0A] @ ''('' @ py_str E saved_date @ '')''
            ]))))))))))))"

definition get_3ds_info_text :: "(string \<rightharpoonup> pyval) \<Rightarrow> string" where
  "get_3ds_info_text params = ''3DS file parameters''"

section \<open>Colour-scale limits\<close>

text \<open>
  \<open>np.nanmean\<close> and \<open>np.nanstd\<close> as numpy documents them: not-a-number entries are
  dropped, the standard deviation is taken with the default \<open>ddof = 0\<close> (the divisor is the
  number of entries kept), and an array with nothing left gives not-a-number.
\<close>

definition not_nan :: "array \<Rightarrow> real list" where
  "not_nan a = concat (map (\<lambda>s. case s of None \<Rightarrow> [] | Some x \<Rightarrow> [x]) a)"

definition mean_of :: "real list \<Rightarrow> real" where
  "mean_of xs = sum_list xs / real (length xs)"

definition std_of :: "real list \<Rightarrow> real" where
  "std_of xs = sqrt (sum_list (map (\<lambda>x. (x - mean_of xs) ^ 2) xs) / real (length xs))"

definition nanmean :: "array \<Rightarrow> sample" where
  "nanmean a = (if not_nan a = [] then None else Some (mean_of (not_nan a)))"

definition nanstd :: "array \<Rightarrow> sample" where
  "nanstd a = (if not_nan a = [] then None else Some (std_of (not_nan a)))"

text \<open>Float arithmetic with not-a-number propagating.\<close>

fun s_add :: "sample \<Rightarrow> sample \<Rightarrow> sample" where
  "s_add (Some x) (Some y) = Some (x + y)"
| "s_add a b = None"

fun s_mul :: "sample \<Rightarrow> sample \<Rightarrow> sample" where
  "s_mul (Some x) (Some y) = Some (x * y)"
| "s_mul a b = None"

text \<open>Line 240: \<open>mean + np.array([-3, 3]) * sigma\<close>.\<close>

definition get_3sigma_limits :: "array \<Rightarrow> array" where
  "get_3sigma_limits a =
     (let mean = nanmean a; sigma = nanstd a
      in map (\<lambda>c. s_add mean (s_mul (Some c) sigma)) [- 3, 3])"

text \<open>Tuple unpacking into two and into three names.\<close>

fun unpack2 :: "'a list \<Rightarrow> exn + ('a \<times> 'a)" where
  "unpack2 [a, b] = Inr (a, b)"
| "unpack2 (a # b # c # xs) = Inl (ValueError ''too many values to unpack (expected 2)'')"
| "unpack2 xs = Inl (ValueError ''not enough values to unpack (expected 2)'')"

fun unpack3 :: "'a list \<Rightarrow> exn + ('a \<times> 'a \<times> 'a)" where
  "unpack3 [a, b, c] = Inr (a, b, c)"
| "unpack3 (a # b # c # d # xs) = Inl (ValueError ''too many values to unpack (expected 3)'')"
| "unpack3 xs = Inl (ValueError ''not enough values to unpack (expected 3)'')"

section \<open>Plot rendering\<close>

text \<open>\<open>plt.savefig\<close> into a fresh buffer: the backend may fail, else the buffer holds the
  figure.\<close>

definition save_png :: "env \<Rightarrow> figure \<Rightarrow> exn + image" where
  "save_png E fig = (case savefig E fig of Some e \<Rightarrow> Inl e | None \<Rightarrow> Inr (Png fig))"

definition arr_scale :: "array \<Rightarrow> real \<Rightarrow> array" where
  "arr_scale a c = map (\<lambda>s. s_mul s (Some c)) a"

definition arr_abs :: "array \<Rightarrow> array" where
  "arr_abs a = map (map_option abs) a"

text \<open>One colour-mapped image of \<open>process_sxm_file\<close>: limits, \<open>imshow\<close>, colour bar, save.\<close>

definition render_map ::
  "env \<Rightarrow> (string \<rightharpoonup> pyval) \<Rightarrow> array \<Rightarrow> string \<Rightarrow> cmap \<Rightarrow> bool \<Rightarrow> exn + image" where
  "render_map E params z origin cm powerlimits =
     ebind (unpack2 (get_3sigma_limits z)) (\<lambda>(vmin, vmax).
     ebind (lookup_key params ''aspect_ratio'') (\<lambda>aspect.
     save_png E (Imshow z origin vmin vmax aspect cm powerlimits)))"

definition process_sxm_file :: "env \<Rightarrow> data \<Rightarrow> exn + image list" where
  "process_sxm_file E d =
     ebind (get_scan_parameters d) (\<lambda>params.
     ebind (topography_get_z E d ''subtract linear fit'' ''fwd'') (\<lambda>z_data.
     ebind (lookup_key params ''direction'') (\<lambda>direction.
       let origin = (if direction = PStr ''down'' then ''upper'' else ''lower'') in
     ebind (render_map E params z_data origin Nanox False) (\<lambda>img_stream1.
     ebind (topography_get_z E d ''differentiate'' ''fwd'') (\<lambda>z_data_diff.
     ebind (render_map E params z_data_diff origin Nanox True) (\<lambda>img_stream2.
       if ''LI_Demod_1_X'' \<in> dom (signals d) then
         ebind (didvmap_get_map E d) (\<lambda>didv_data.
         ebind (render_map E params didv_data origin Bwr False) (\<lambda>img_stream3.
         Inr [img_stream1, img_stream2, img_stream3]))
       else Inr [img_stream1, img_stream2]))))))"

definition process_dat_file :: "env \<Rightarrow> data \<Rightarrow> exn + image list" where
  "process_dat_file E d =
     ebind (get_dat_parameters d) (\<lambda>params.
       if ''sweep_z'' \<in> dom params then
         ebind (z_spectrum_get_iz E d) (\<lambda>(z, i).
         ebind (save_png E (Curve (arr_scale z (10 ^ 9)) (arr_scale i (10 ^ 9))
                  ''Z (nm)'' ''Current (nA)'' False False)) (\<lambda>img_stream1.
         ebind (save_png E (Curve (arr_scale z (10 ^ 9)) (arr_abs (arr_scale i (10 ^ 9)))
                  ''Z (nm)'' ''|Current| (nA)'' True True)) (\<lambda>img_stream2.
         Inr [img_stream1, img_stream2])))
       else
         ebind (spectrum_didv_scaled E d) (\<lambda>(v1, g1).
         ebind (save_png E (Curve v1 (arr_scale g1 (10 ^ 9))
                  ''Bias (V)'' ''dI/dV (nS)'' False False)) (\<lambda>img_stream1.
         ebind (spectrum_didv_normalized E d) (\<lambda>(v2, g2).
         ebind (save_png E (Curve v2 g2
                  ''Bias (V)'' ''Norm. dI/dV'' False False)) (\<lambda>img_stream2.
         ebind (spectrum_iv_raw E d) (\<lambda>(v3, i3).
         ebind (save_png E (Curve v3 (arr_scale i3 (10 ^ 12))
                  ''Bias (V)'' ''Current (pA)'' False False)) (\<lambda>img_stream3.
         Inr [img_stream1, img_stream2, img_stream3])))))))"

definition process_3ds_file :: "env \<Rightarrow> data \<Rightarrow> exn + image" where
  "process_3ds_file E d = save_png E Blank"

section \<open>The report document\<close>

text \<open>Positions and sizes are kept in inches.\<close>

record picture =
  pic_image :: image
  pic_left :: real
  pic_top :: real
  pic_width :: real

record textbox =
  tb_left :: real
  tb_top :: real
  tb_width :: real
  tb_height :: real
  tb_text :: string

record slide =
  title :: string
  pictures :: "picture list"
  textboxes :: "textbox list"

definition add_picture :: "slide \<Rightarrow> image \<Rightarrow> real \<Rightarrow> real \<Rightarrow> real \<Rightarrow> slide" where
  "add_picture s img x y w =
     s\<lparr>pictures := pictures s
          @ [\<lparr>pic_image = img, pic_left = x, pic_top = y, pic_width = w\<rparr>]\<rparr>"

definition add_textbox :: "slide \<Rightarrow> real \<Rightarrow> real \<Rightarrow> real \<Rightarrow> real \<Rightarrow> string \<Rightarrow> slide" where
  "add_textbox s x y w h txt =
     s\<lparr>textboxes := textboxes s
          @ [\<lparr>tb_left = x, tb_top = y, tb_width = w, tb_height = h, tb_text = txt\<rparr>]\<rparr>"

definition place2 :: "slide \<Rightarrow> image \<times> image \<Rightarrow> slide" where
  "place2 s p =
     (case p of (img_stream1, img_stream2) \<Rightarrow>
        add_picture (add_picture s img_stream1 0 (3 / 2) (16 / 5))
          img_stream2 (0 + 16 / 5 * (102 / 100)) (3 / 2) (16 / 5))"

definition place3 :: "slide \<Rightarrow> image \<times> image \<times> image \<Rightarrow> slide" where
  "place3 s p =
     (case p of (img_stream1, img_stream2, img_stream3) \<Rightarrow>
        add_picture (place2 s (img_stream1, img_stream2))
          img_stream3 (0 + 16 / 5 * (204 / 100)) (3 / 2) (16 / 5))"

text \<open>
  Lines 430 to 487 of \<open>add_slide\<close>, on the slide just created: the slide as the branch
  leaves it, and either the exception raised or \<open>text_top\<close> and \<open>info_text\<close>. When
  no branch applies, \<open>text_top\<close> is unbound at line 491.
\<close>

definition slide_content :: "env \<Rightarrow> data \<Rightarrow> slide \<Rightarrow> slide \<times> (exn + real \<times> string)" where
  "slide_content E d s =
     (if endswith (fname d) ''.sxm'' then
        (case get_scan_parameters d of
           Inl e \<Rightarrow> (s, Inl e)
         | Inr params \<Rightarrow>
             if ''LI_Demod_1_X'' \<in> dom (signals d) then
               (case ebind (process_sxm_file E d) unpack3 of
                  Inl e \<Rightarrow> (s, Inl e)
                | Inr p \<Rightarrow>
                    (place3 s p,
                     ebind (get_sxm_info_text E params) (\<lambda>info_text.
                       Inr (3 / 2 + 16 / 5 + 2 / 10, info_text))))
             else
               (case ebind (process_sxm_file E d) unpack2 of
                  Inl e \<Rightarrow> (s, Inl e)
                | Inr p \<Rightarrow>
                    (place2 s p,
                     ebind (get_sxm_info_text E params) (\<lambda>info_text.
                       Inr (3 / 2 + 16 / 5 + 2 / 10, info_text)))))
      else if endswith (fname d) ''.dat'' then
        (case get_dat_parameters d of
           Inl e \<Rightarrow> (s, Inl e)
         | Inr params \<Rightarrow>
             if ''sweep_z'' \<in> dom params then
               (case ebind (process_dat_file E d) unpack2 of
                  Inl e \<Rightarrow> (s, Inl e)
                | Inr p \<Rightarrow>
                    (place2 s p,
                     ebind (get_dat_info_text E params) (\<lambda>info_text.
                       Inr (3 / 2 + 16 / 5 + 2 / 10, info_text))))
             else
               (case ebind (process_dat_file E d) unpack3 of
                  Inl e \<Rightarrow> (s, Inl e)
                | Inr p \<Rightarrow>
                    (place3 s p,
                     ebind (get_dat_info_text E params) (\<lambda>info_text.
                       Inr (3 / 2 + 16 / 5 + 2 / 10, info_text)))))
      else if endswith (fname d) ''.3ds'' then
        (case get_scan_parameters d of
           Inl e \<Rightarrow> (s, Inl e)
         | Inr params \<Rightarrow>
             let info_text = get_3ds_info_text params in
             (s, ebind (process_3ds_file E d) (\<lambda>img_stream. Inr (6, info_text))))
      else (s, Inl (UnboundLocalError ''text_top'')))"

text \<open>
  \<open>add_slide\<close>: the new slide is appended to the presentation and titled before anything
  can fail, so it stays in the document when a later step raises.
\<close>

definition add_slide :: "env \<Rightarrow> slide list \<Rightarrow> data \<Rightarrow> slide list \<times> exn option" where
  "add_slide E prs d =
     (let s = \<lparr>title = ''File: '' @ fname d, pictures = [], textboxes = []\<rparr> in
      case slide_content E d s of
        (s', Inl e) \<Rightarrow> (prs @ [s'], Some e)
      | (s', Inr (text_top, info_text)) \<Rightarrow>
          (prs @ [add_textbox s' 1 text_top 8 (1 / 2)
                    (if info_text \<noteq> [] then info_text else ''No parameters available'')],
           None))"

section \<open>The batch run: \<open>DataToPPT.generate_ppt\<close>\<close>

record DataToPPT =
  base_path :: string
  start_num :: int
  end_num :: int
  keyword :: "string option"
  output_filename :: string
  prs :: "slide list"

text \<open>\<open>DataToPPT.__init__\<close>: the presentation starts empty.\<close>

definition DataToPPT_init ::
  "string \<Rightarrow> int \<Rightarrow> int \<Rightarrow> string option \<Rightarrow> string \<Rightarrow> DataToPPT" where
  "DataToPPT_init bp s e kw out =
     \<lparr>base_path = bp, start_num = s, end_num = e, keyword = kw, output_filename = out,
      prs = []\<rparr>"

text \<open>
  The body of the \<open>try\<close> (lines 505 to 509) for index \<open>i\<close>: the presentation, the lines
  printed, and the exception raised, if any.
\<close>

definition try_body ::
  "env \<Rightarrow> string \<Rightarrow> string option \<Rightarrow> int \<Rightarrow> slide list
    \<Rightarrow> slide list \<times> string list \<times> exn option" where
  "try_body E bp kw i p =
     (case NanonisData E bp (IntNumber i) kw of
        (out, Inl e) \<Rightarrow> (p, out, Some e)
      | (out, Inr d) \<Rightarrow>
          (case add_slide E p d of
             (p', r) \<Rightarrow> (p', out @ [''Processing file: '' @ fname d], r)))"

definition skip_line :: "int \<Rightarrow> exn \<Rightarrow> string" where
  "skip_line i e = ''Skipping number '' @ str_int i @ '': '' @ exn_message e"

text \<open>
  The \<open>for\<close> loop with its \<open>except ValueError\<close>: an exception of that kind is logged and
  the loop goes on, any other ends the loop and leaves \<open>generate_ppt\<close>.
\<close>

fun batch_loop ::
  "env \<Rightarrow> string \<Rightarrow> string option \<Rightarrow> int list \<Rightarrow> slide list
    \<Rightarrow> slide list \<times> string list \<times> exn option" where
  "batch_loop E bp kw [] p = (p, [], None)"
| "batch_loop E bp kw (i # is) p =
     (case try_body E bp kw i p of
        (p', out, None) \<Rightarrow>
          (case batch_loop E bp kw is p' of (q, out', r) \<Rightarrow> (q, out @ out', r))
      | (p', out, Some e) \<Rightarrow>
          if is_ValueError e
          then (case batch_loop E bp kw is p' of
                  (q, out', r) \<Rightarrow> (q, out @ [skip_line i e] @ out', r))
          else (p', out, Some e))"

text \<open>
  What a run leaves behind: the object, the lines printed, the exception that left
  \<open>generate_ppt\<close> (if any), and the file written (path and slides).
\<close>

record run =
  ppt :: DataToPPT
  stdout :: "string list"
  raised :: "exn option"
  saved :: "(string \<times> slide list) option"

definition generate_ppt :: "env \<Rightarrow> DataToPPT \<Rightarrow> run" where
  "generate_ppt E self =
     (let banner = ''Generating PPT for files '' @ str_int (start_num self) @ '' to ''
                     @ str_int (end_num self) @ ''...'';
          path = base_path self @ ''PPT/'' @ output_filename self
      in case batch_loop E (base_path self) (keyword self)
                [start_num self .. end_num self] (prs self) of
           (p, out, Some e) \<Rightarrow>
             \<lparr>ppt = self\<lparr>prs := p\<rparr>, stdout = banner # out, raised = Some e, saved = None\<rparr>
         | (p, out, None) \<Rightarrow>
             (case pptx_save E path of
                Some e \<Rightarrow>
                  \<lparr>ppt = self\<lparr>prs := p\<rparr>, stdout = banner # out, raised = Some e,
                   saved = None\<rparr>
              | None \<Rightarrow>
                  \<lparr>ppt = self\<lparr>prs := p\<rparr>,
                   stdout = banner # out @ [''PPT has been saved as '' @ path],
                   raised = None, saved = Some (path, p)\<rparr>))"

section \<open>A directory and an environment to run the model on\<close>

text \<open>
  Shell-style matching of a name against a pattern of literal characters, \<open>?\<close> and \<open>*\<close>.
\<close>

fun fnmatch :: "string \<Rightarrow> string \<Rightarrow> bool" where
  "fnmatch [] [] = True"
| "fnmatch (c # cs) [] = False"
| "fnmatch [] (p # ps) = (p = CHR ''*'' \<and> fnmatch [] ps)"
| "fnmatch (c # cs) (p # ps) =
     (if p = CHR ''*'' then fnmatch (c # cs) ps \<or> fnmatch cs (p # ps)
      else (p = CHR ''?'' \<or> p = c) \<and> fnmatch cs ps)"

text \<open>
  A glob over one directory \<open>dir\<close> (written with its trailing slash) whose entries the
  operating system enumerates in the order \<open>names\<close>: the matches come in that order, and
  a name with a leading dot is not matched by a pattern without one.
\<close>

definition dir_glob :: "string \<Rightarrow> string list \<Rightarrow> string \<Rightarrow> string list" where
  "dir_glob dir names pattern =
     (if take (length dir) pattern = dir
      then map (\<lambda>n. dir @ n)
             (filter (\<lambda>n. fnmatch n (drop (length dir) pattern)
                          \<and> (n \<noteq> [] \<and> hd n = CHR ''.'' \<longrightarrow> take 1 (drop (length dir) pattern) = ''.''))
                names)
      else [])"

text \<open>A parser that returns a record named after the file, with the given header and
  signals.\<close>

definition load_fixed ::
  "(string \<rightharpoonup> pyval) \<Rightarrow> (string \<rightharpoonup> array) \<Rightarrow> string \<Rightarrow> exn + data" where
  "load_fixed h sg filepath = Inr \<lparr>fname = basename filepath, header = h, signals = sg\<rparr>"

text \<open>Unsigned decimal numerals, the only number strings the test headers use.\<close>

definition parse_nat_str :: "string \<Rightarrow> real option" where
  "parse_nat_str s =
     (if s \<noteq> [] \<and> list_all (\<lambda>c. c \<in> set ''0123456789'') s
      then Some (real (foldl (\<lambda>a c. 10 * a + (of_char c - 48)) 0 s))
      else None)"

definition sxm_header :: "string \<rightharpoonup> pyval" where
  "sxm_header = Map.empty
     (''scan_pixels'' \<mapsto> PTup [PNum 512, PNum 256],
      ''scan_range'' \<mapsto> PTup [PNum (100 / 10 ^ 9), PNum (50 / 10 ^ 9)],
      ''scan_dir'' \<mapsto> PStr ''down'',
      ''scan_angle'' \<mapsto> PStr ''0'',
      ''bias>bias (v)'' \<mapsto> PStr ''1'',
      ''z-controller>setpoint'' \<mapsto> PStr ''0'',
      ''rec_time'' \<mapsto> PStr ''10:11:12'',
      ''rec_date'' \<mapsto> PStr ''05.03.2024'')"

definition dat_header :: "string \<rightharpoonup> pyval" where
  "dat_header = Map.empty
     (''Bias>Bias (V)'' \<mapsto> PStr ''1'',
      ''Z-Controller>Setpoint'' \<mapsto> PStr ''0'',
      ''Bias Spectroscopy>Sweep Start (V)'' \<mapsto> PStr ''0'',
      ''Bias Spectroscopy>Sweep End (V)'' \<mapsto> PStr ''1'',
      ''Bias Spectroscopy>Number of sweeps'' \<mapsto> PStr ''3'',
      ''Z Spectroscopy>Initial Z-offset (m)'' \<mapsto> PStr ''0'',
      ''Z Spectroscopy>Sweep distance (m)'' \<mapsto> PStr ''1'',
      ''Z Spectroscopy>Number of sweeps'' \<mapsto> PStr ''7'',
      ''Comment01'' \<mapsto> PStr ''tip A'',
      ''Saved Date'' \<mapsto> PStr ''05.03.2024 10:11:12'')"

text \<open>
  An environment over directory \<open>/d/\<close> with the entries \<open>names\<close>, parsers returning the
  headers above (with signals \<open>sg\<close>), analysis helpers returning small arrays, and
  backends that never fail.
\<close>

definition test_env :: "string list \<Rightarrow> (string \<rightharpoonup> pyval) \<Rightarrow> (string \<rightharpoonup> array) \<Rightarrow> env" where
  "test_env names sxm_h sg =
     \<lparr>glob = dir_glob ''/d/'' names,
      load_sxm = load_fixed sxm_h sg,
      load_dat = load_fixed dat_header sg,
      load_3ds = load_fixed Map.empty sg,
      topography_get_z = (\<lambda>d how dir. Inr [Some 0, None, Some 4]),
      didvmap_get_map = (\<lambda>d. Inr [Some 1, Some 3]),
      z_spectrum_get_iz = (\<lambda>d. Inr ([Some 0, Some 1], [Some 2, Some 1])),
      spectrum_didv_scaled = (\<lambda>d. Inr ([Some 0, Some 1], [Some 1, Some 2])),
      spectrum_didv_normalized = (\<lambda>d. Inr ([Some 0, Some 1], [Some 1, Some 1])),
      spectrum_iv_raw = (\<lambda>d. Inr ([Some 0, Some 1], [Some 0, Some 3])),
      savefig = (\<lambda>f. None),
      pptx_save = (\<lambda>p. None),
      float_of_str = parse_nat_str,
      fmt_float = (\<lambda>x. ''<float>''),
      fmt_f0 = (\<lambda>x. ''<.0f>''),
      fmt_f1 = (\<lambda>x. ''<.1f>''),
      str_of = (\<lambda>v. ''<str>'')\<rparr>"

section \<open>Vocabulary of the properties and sample records\<close>

text \<open>The header keys that each branch of \<open>get_dat_parameters\<close> reads.\<close>

definition z_sweep_keys :: "string set" where
  "z_sweep_keys =
     {''Bias>Bias (V)'', ''Z-Controller>Setpoint'', ''Bias Spectroscopy>Number of sweeps'',
      ''Z Spectroscopy>Initial Z-offset (m)'', ''Z Spectroscopy>Sweep distance (m)'',
      ''Z Spectroscopy>Number of sweeps'', ''Comment01'', ''Saved Date''}"

definition bias_sweep_keys :: "string set" where
  "bias_sweep_keys =
     {''Bias>Bias (V)'', ''Z-Controller>Setpoint'', ''Bias Spectroscopy>Sweep Start (V)'',
      ''Bias Spectroscopy>Sweep End (V)'', ''Bias Spectroscopy>Number of sweeps'',
      ''Comment01'', ''Saved Date''}"

text \<open>Two point-spectroscopy records over the header above: a Z sweep and a bias sweep.\<close>

definition z_record :: data where
  "z_record = \<lparr>fname = ''b_0012.dat'', header = dat_header,
               signals = Map.empty(''Z rel (m)'' \<mapsto> [Some 0, Some 1])\<rparr>"

definition bias_record :: data where
  "bias_record = \<lparr>fname = ''b_0012.dat'', header = dat_header,
               signals = Map.empty(''Z'' \<mapsto> [Some 0, None, Some 4])\<rparr>"

text \<open>The header keys of a topography record that \<open>get_sxm_parameters\<close> reads besides the
  pixel counts and the scan range.\<close>

definition sxm_other_keys :: "string set" where
  "sxm_other_keys =
     {''scan_dir'', ''scan_angle'', ''bias>bias (v)'', ''z-controller>setpoint'',
      ''rec_time'', ''rec_date''}"

text \<open>A topography record over the header above, without a lock-in channel.\<close>

definition sxm_record :: data where
  "sxm_record = \<lparr>fname = ''a_0010.sxm'', header = sxm_header,
                 signals = Map.empty(''Z'' \<mapsto> [Some 0, None, Some 4])\<rparr>"

text \<open>The buffer that \<open>render_map\<close> leaves when nothing fails: the array drawn with the
  limits of \<open>get_3sigma_limits\<close> as \<open>vmin\<close> and \<open>vmax\<close>.\<close>

definition map_image :: "array \<Rightarrow> string \<Rightarrow> pyval \<Rightarrow> cmap \<Rightarrow> bool \<Rightarrow> image" where
  "map_image z origin aspect cm powerlimits =
     Png (Imshow z origin (get_3sigma_limits z ! 0) (get_3sigma_limits z ! 1) aspect cm
            powerlimits)"

text \<open>The same record with a lock-in channel, the parameters extracted from either, and
  a grid-spectroscopy record.\<close>

definition sxm_li_record :: data where
  "sxm_li_record = \<lparr>fname = ''a_0010.sxm'', header = sxm_header,
                    signals = Map.empty(''Z'' \<mapsto> [Some 0, None, Some 4],
                                        ''LI_Demod_1_X'' \<mapsto> [Some 1, Some 3])\<rparr>"

definition sxm_params :: "string \<rightharpoonup> pyval" where
  "sxm_params = Map.empty
     (''pixels'' \<mapsto> PTup [PNum 512, PNum 256],
      ''range'' \<mapsto> PTup [PNum (100 / 10 ^ 9), PNum (50 / 10 ^ 9)],
      ''direction'' \<mapsto> PStr ''down'', ''angle'' \<mapsto> PStr ''0'', ''bias'' \<mapsto> PStr ''1'',
      ''current'' \<mapsto> PStr ''0'', ''scan_time'' \<mapsto> PStr ''10:11:12'',
      ''scan_date'' \<mapsto> PStr ''2024.03.05'', ''aspect_ratio'' \<mapsto> PNum 1)"

definition grid_record :: data where
  "grid_record = \<lparr>fname = ''c_0013.3ds'', header = Map.empty, signals = Map.empty\<rparr>"

text \<open>The lexicographic order of strings, compared character by character by their codes,
  and the least element of a non-empty list in that order.\<close>

fun str_le :: "string \<Rightarrow> string \<Rightarrow> bool" where
  "str_le [] ys = True"
| "str_le (x # xs) [] = False"
| "str_le (x # xs) (y # ys) =
     ((of_char x :: nat) < of_char y \<or> (x = y \<and> str_le xs ys))"

definition lex_first :: "string list \<Rightarrow> string" where
  "lex_first ms = fold (\<lambda>a b. if str_le a b then a else b) (tl ms) (hd ms)"

text \<open>The exception that the body of the \<open>try\<close> raises for index \<open>i\<close>, if any; it does not
  depend on the slides already in the presentation.\<close>

definition body_raises :: "env \<Rightarrow> string \<Rightarrow> string option \<Rightarrow> int \<Rightarrow> exn option" where
  "body_raises E bp kw i = snd (snd (try_body E bp kw i []))"

text \<open>The records that the loader returns for the indices \<open>is\<close>, in the order of \<open>is\<close>.\<close>

definition loaded_files :: "env \<Rightarrow> string \<Rightarrow> string option \<Rightarrow> int list \<Rightarrow> data list" where
  "loaded_files E bp kw is =
     List.map_filter
       (\<lambda>i. case snd (NanonisData E bp (IntNumber i) kw) of
               Inl e \<Rightarrow> None
             | Inr d \<Rightarrow> Some d) is"

text \<open>Three directories to run a batch on: a topography file and a spectroscopy file with
  index 11 missing; the same with a bias entry in the topography header that is not a
  number; and one whose topography file has an empty header.\<close>

definition scenario_env :: env where
  "scenario_env = test_env [''a_0010.sxm'', ''b_0012.dat''] sxm_header
                    (Map.empty(''Z'' \<mapsto> [Some 0, None, Some 4]))"

definition malformed_env :: env where
  "malformed_env = test_env [''a_0010.sxm'', ''b_0012.dat'']
                     (sxm_header(''bias>bias (v)'' \<mapsto> PStr ''abc''))
                     (Map.empty(''Z'' \<mapsto> [Some 0, None, Some 4]))"

definition malformed_record :: data where
  "malformed_record = \<lparr>fname = ''a_0010.sxm'',
                        header = sxm_header(''bias>bias (v)'' \<mapsto> PStr ''abc''),
                        signals = Map.empty(''Z'' \<mapsto> [Some 0, None, Some 4])\<rparr>"

definition headerless_record :: data where
  "headerless_record = \<lparr>fname = ''a_0013.sxm'', header = Map.empty,
                         signals = Map.empty(''Z'' \<mapsto> [Some 0, None, Some 4])\<rparr>"

definition keyerror_env :: env where
  "keyerror_env = test_env [''notes_0011.txt'', ''b_0012.dat'', ''a_0013.sxm''] Map.empty
                    (Map.empty(''Z'' \<mapsto> [Some 0, None, Some 4]))"

section \<open>Properties of the date reformatters\<close>

lemma split_on_notin: "c \<notin> set s \<Longrightarrow> split_on c s = [s]"
  by (induction s) auto

lemma split_on_append: "c \<notin> set a \<Longrightarrow> split_on c (a @ c # b) = a # split_on c b"
  by (induction a) auto

lemma split_on_nonempty: "split_on c s \<noteq> []"
  by (induction s) (auto split: list.splits)

lemma length_split_on: "length (split_on c s) = Suc (count_list s c)"
  by (induction s) (auto split: list.splits simp: split_on_nonempty)

lemma hd_split_on: "hd (split_on c s) = takeWhile (\<lambda>x. x \<noteq> c) s"
  by (induction s) (auto split: list.splits simp: split_on_nonempty)

lemma format_date_sxm_reorders:
  assumes "CHR ''.'' \<notin> set d" "CHR ''.'' \<notin> set m" "CHR ''.'' \<notin> set y"
  shows "format_date_sxm (PStr (d @ ''.'' @ m @ ''.'' @ y)) = PStr (y @ ''.'' @ m @ ''.'' @ d)"
  using assms by (simp add: format_date_sxm_def split_on_append split_on_notin)

lemma format_date_sxm_unchanged:
  assumes "count_list s CHR ''.'' \<noteq> 2"
  shows "format_date_sxm (PStr s) = PStr s"
proof -
  have "length (split_on CHR ''.'' s) \<noteq> 3"
    using assms by (simp add: length_split_on)
  then show ?thesis
    by (auto simp: format_date_sxm_def split: list.splits)
qed

lemma format_date_dat_reorders:
  assumes "CHR ''.'' \<notin> set d" "CHR ''.'' \<notin> set m" "CHR ''.'' \<notin> set y"
    and "CHR '' '' \<notin> set (d @ m @ y @ t)"
  shows "format_date_dat (PStr (d @ ''.'' @ m @ ''.'' @ y @ '' '' @ t))
         = PStr (y @ ''.'' @ m @ ''.'' @ d @ ''_'' @ t)"
proof -
  have "split_on CHR '' '' ((d @ ''.'' @ m @ ''.'' @ y) @ CHR '' '' # t)
        = [d @ ''.'' @ m @ ''.'' @ y, t]"
    using assms(4) by (subst split_on_append) (auto simp: split_on_notin)
  then show ?thesis
    using assms(1-3) by (simp add: format_date_dat_def split_on_append split_on_notin)
qed

lemma format_date_dat_unchanged:
  assumes "count_list s CHR '' '' \<noteq> 1 \<or> count_list (takeWhile (\<lambda>x. x \<noteq> CHR '' '') s) CHR ''.'' \<noteq> 2"
  shows "format_date_dat (PStr s) = PStr s"
proof (cases "count_list s CHR '' '' \<noteq> 1")
  case True
  then have "length (split_on CHR '' '' s) \<noteq> 2"
    by (simp add: length_split_on)
  then show ?thesis
    by (auto simp: format_date_dat_def split: list.splits)
next
  case False
  with assms have "length (split_on CHR ''.'' (hd (split_on CHR '' '' s))) \<noteq> 3"
    by (simp add: length_split_on hd_split_on)
  then show ?thesis
    by (auto simp: format_date_dat_def split: list.splits)
qed

text \<open>
  C4 (as amended). The reformatter of the topography branch turns every string
  \<open>d.m.y\<close> (three parts free of dots) into \<open>y.m.d\<close>, so \<open>05.03.2024\<close> gives
  \<open>2024.03.05\<close>, and returns every string that does not have exactly two dots unchanged.
  The reformatter of the point-spectroscopy branch expects \<open>d.m.y\<close>, one blank and a time
  \<open>t\<close>, and gives \<open>y.m.d_t\<close>; a string without exactly one blank, or whose part before
  the blank does not have exactly two dots, is returned unchanged. Neither raises, and a
  value that is no string is returned as it is.
\<close>

theorem format_date_ok:
  "(CHR ''.'' \<notin> set (d @ m @ y) \<longrightarrow>
      format_date_sxm (PStr (d @ ''.'' @ m @ ''.'' @ y)) = PStr (y @ ''.'' @ m @ ''.'' @ d))
   \<and> (count_list s CHR ''.'' \<noteq> 2 \<longrightarrow> format_date_sxm (PStr s) = PStr s)
   \<and> (CHR ''.'' \<notin> set (d @ m @ y) \<and> CHR '' '' \<notin> set (d @ m @ y @ t) \<longrightarrow>
      format_date_dat (PStr (d @ ''.'' @ m @ ''.'' @ y @ '' '' @ t))
        = PStr (y @ ''.'' @ m @ ''.'' @ d @ ''_'' @ t))
   \<and> (count_list s' CHR '' '' \<noteq> 1
        \<or> count_list (takeWhile (\<lambda>x. x \<noteq> CHR '' '') s') CHR ''.'' \<noteq> 2 \<longrightarrow>
      format_date_dat (PStr s') = PStr s')
   \<and> format_date_sxm (PNum x) = PNum x \<and> format_date_sxm (PTup vs) = PTup vs
   \<and> format_date_dat (PNum x) = PNum x \<and> format_date_dat (PTup vs) = PTup vs"
  using format_date_sxm_reorders [of d m y] format_date_sxm_unchanged [of s]
    format_date_dat_reorders [of d m y t] format_date_dat_unchanged [of s']
  by (simp add: format_date_sxm_def format_date_dat_def)

theorem format_date_ok_witness:
  "format_date_sxm (PStr ''05.03.2024'') = PStr ''2024.03.05''
   \<and> format_date_sxm (PStr ''05-03-2024'') = PStr ''05-03-2024''
   \<and> format_date_dat (PStr ''05.03.2024 10:11:12'') = PStr ''2024.03.05_10:11:12''
   \<and> format_date_dat (PStr ''05.03.2024'') = PStr ''05.03.2024''"
  using format_date_ok [of "''05''" "''03''" "''2024''" "''05-03-2024''" "''10:11:12''" "''05.03.2024''"]
  by simp

text \<open>
  The point-spectroscopy reformatter leaves the bare date \<open>05.03.2024\<close> as it is.
\<close>

theorem format_date_dat_bare_date_counterexample:
  "format_date_dat (PStr ''05.03.2024'') \<noteq> PStr ''2024.03.05''"
  by (simp add: format_date_dat_def)

section \<open>Properties of parameter extraction\<close>

lemma ebind_Inr_iff: "ebind r f = Inr y \<longleftrightarrow> (\<exists>x. r = Inr x \<and> f x = Inr y)"
  by (cases r) (simp_all add: ebind_def)

lemma lookup_key_Inr_iff: "lookup_key m k = Inr v \<longleftrightarrow> m k = Some v"
  by (simp add: lookup_key_def split: option.splits)

lemma lookup_key_Some: "m k = Some v \<Longrightarrow> lookup_key m k = Inr v"
  by (simp add: lookup_key_def)

lemma ebind_Inr: "ebind (Inr x) f = f x"
  by (simp add: ebind_def)

lemma get_dat_parameters_z_branch:
  assumes "''Z rel (m)'' \<in> dom (signals d)" and "get_dat_parameters d = Inr params"
  shows "\<exists>bias current nb offset sweep_z nz comment saved_date.
           header d ''Bias>Bias (V)'' = Some bias
         \<and> header d ''Z-Controller>Setpoint'' = Some current
         \<and> header d ''Bias Spectroscopy>Number of sweeps'' = Some nb
         \<and> header d ''Z Spectroscopy>Initial Z-offset (m)'' = Some offset
         \<and> header d ''Z Spectroscopy>Sweep distance (m)'' = Some sweep_z
         \<and> header d ''Z Spectroscopy>Number of sweeps'' = Some nz
         \<and> header d ''Comment01'' = Some comment
         \<and> header d ''Saved Date'' = Some saved_date
         \<and> params = Map.empty
             (''bias'' \<mapsto> bias, ''current'' \<mapsto> current, ''sweep_num'' \<mapsto> nb,
              ''offset'' \<mapsto> offset, ''sweep_z'' \<mapsto> sweep_z, ''sweep_num'' \<mapsto> nz,
              ''comment'' \<mapsto> comment, ''saved_date'' \<mapsto> format_date_dat saved_date)"
  using assms unfolding get_dat_parameters_def
  by (simp add: ebind_Inr_iff lookup_key_Inr_iff) blast

lemma get_dat_parameters_bias_branch:
  assumes "''Z rel (m)'' \<notin> dom (signals d)" and "get_dat_parameters d = Inr params"
  shows "\<exists>bias current sweep_start sweep_end nb comment saved_date.
           header d ''Bias>Bias (V)'' = Some bias
         \<and> header d ''Z-Controller>Setpoint'' = Some current
         \<and> header d ''Bias Spectroscopy>Sweep Start (V)'' = Some sweep_start
         \<and> header d ''Bias Spectroscopy>Sweep End (V)'' = Some sweep_end
         \<and> header d ''Bias Spectroscopy>Number of sweeps'' = Some nb
         \<and> header d ''Comment01'' = Some comment
         \<and> header d ''Saved Date'' = Some saved_date
         \<and> params = Map.empty
             (''bias'' \<mapsto> bias, ''current'' \<mapsto> current, ''sweep_start'' \<mapsto> sweep_start,
              ''sweep_end'' \<mapsto> sweep_end, ''sweep_num'' \<mapsto> nb,
              ''comment'' \<mapsto> comment, ''saved_date'' \<mapsto> format_date_dat saved_date)"
  using assms unfolding get_dat_parameters_def
  by (simp add: ebind_Inr_iff lookup_key_Inr_iff) blast

lemma lookup_key_dom: "k \<in> dom m \<Longrightarrow> \<exists>v. lookup_key m k = Inr v"
  by (auto simp: lookup_key_def)

lemma get_dat_parameters_z_returns:
  assumes "''Z rel (m)'' \<in> dom (signals d)" and "z_sweep_keys \<subseteq> dom (header d)"
  shows "\<exists>params. get_dat_parameters d = Inr params"
proof -
  have mem: "''Bias>Bias (V)'' \<in> dom (header d)"
    "''Z-Controller>Setpoint'' \<in> dom (header d)"
    "''Bias Spectroscopy>Number of sweeps'' \<in> dom (header d)"
    "''Z Spectroscopy>Initial Z-offset (m)'' \<in> dom (header d)"
    "''Z Spectroscopy>Sweep distance (m)'' \<in> dom (header d)"
    "''Z Spectroscopy>Number of sweeps'' \<in> dom (header d)"
    "''Comment01'' \<in> dom (header d)"
    "''Saved Date'' \<in> dom (header d)"
    using assms(2) unfolding z_sweep_keys_def by simp_all
  obtain bias where 1: "lookup_key (header d) ''Bias>Bias (V)'' = Inr bias"
    using lookup_key_dom [OF mem(1)] by blast
  obtain current where 2: "lookup_key (header d) ''Z-Controller>Setpoint'' = Inr current"
    using lookup_key_dom [OF mem(2)] by blast
  obtain nb where 3: "lookup_key (header d) ''Bias Spectroscopy>Number of sweeps'' = Inr nb"
    using lookup_key_dom [OF mem(3)] by blast
  obtain offset where 4: "lookup_key (header d) ''Z Spectroscopy>Initial Z-offset (m)'' = Inr offset"
    using lookup_key_dom [OF mem(4)] by blast
  obtain sweep_z where 5: "lookup_key (header d) ''Z Spectroscopy>Sweep distance (m)'' = Inr sweep_z"
    using lookup_key_dom [OF mem(5)] by blast
  obtain nz where 6: "lookup_key (header d) ''Z Spectroscopy>Number of sweeps'' = Inr nz"
    using lookup_key_dom [OF mem(6)] by blast
  obtain comment where 7: "lookup_key (header d) ''Comment01'' = Inr comment"
    using lookup_key_dom [OF mem(7)] by blast
  obtain saved_date where 8: "lookup_key (header d) ''Saved Date'' = Inr saved_date"
    using lookup_key_dom [OF mem(8)] by blast
  show ?thesis
    unfolding get_dat_parameters_def using assms(1)
    by (simp only: 1 2 3 4 5 6 7 8 ebind_Inr if_True) blast
qed

lemma get_dat_parameters_bias_returns:
  assumes "''Z rel (m)'' \<notin> dom (signals d)" and "bias_sweep_keys \<subseteq> dom (header d)"
  shows "\<exists>params. get_dat_parameters d = Inr params"
proof -
  have mem: "''Bias>Bias (V)'' \<in> dom (header d)"
    "''Z-Controller>Setpoint'' \<in> dom (header d)"
    "''Bias Spectroscopy>Sweep Start (V)'' \<in> dom (header d)"
    "''Bias Spectroscopy>Sweep End (V)'' \<in> dom (header d)"
    "''Bias Spectroscopy>Number of sweeps'' \<in> dom (header d)"
    "''Comment01'' \<in> dom (header d)"
    "''Saved Date'' \<in> dom (header d)"
    using assms(2) unfolding bias_sweep_keys_def by simp_all
  obtain bias where 1: "lookup_key (header d) ''Bias>Bias (V)'' = Inr bias"
    using lookup_key_dom [OF mem(1)] by blast
  obtain current where 2: "lookup_key (header d) ''Z-Controller>Setpoint'' = Inr current"
    using lookup_key_dom [OF mem(2)] by blast
  obtain s0 where 3: "lookup_key (header d) ''Bias Spectroscopy>Sweep Start (V)'' = Inr s0"
    using lookup_key_dom [OF mem(3)] by blast
  obtain s1 where 4: "lookup_key (header d) ''Bias Spectroscopy>Sweep End (V)'' = Inr s1"
    using lookup_key_dom [OF mem(4)] by blast
  obtain nb where 5: "lookup_key (header d) ''Bias Spectroscopy>Number of sweeps'' = Inr nb"
    using lookup_key_dom [OF mem(5)] by blast
  obtain comment where 6: "lookup_key (header d) ''Comment01'' = Inr comment"
    using lookup_key_dom [OF mem(6)] by blast
  obtain saved_date where 7: "lookup_key (header d) ''Saved Date'' = Inr saved_date"
    using lookup_key_dom [OF mem(7)] by blast
  show ?thesis
    unfolding get_dat_parameters_def using assms(1)
    by (simp only: 1 2 3 4 5 6 7 ebind_Inr if_False) blast
qed

lemma get_dat_parameters_z_facts:
  assumes "''Z rel (m)'' \<in> dom (signals d)" and "get_dat_parameters d = Inr params"
  shows "dom params = {''bias'', ''current'', ''sweep_num'', ''offset'', ''sweep_z'',
                       ''comment'', ''saved_date''}
       \<and> params ''offset'' = header d ''Z Spectroscopy>Initial Z-offset (m)''
       \<and> params ''sweep_z'' = header d ''Z Spectroscopy>Sweep distance (m)''
       \<and> params ''sweep_num'' = header d ''Z Spectroscopy>Number of sweeps''"
proof -
  from get_dat_parameters_z_branch [OF assms]
  obtain bias current nb offset sweep_z nz comment saved_date where
    h: "header d ''Z Spectroscopy>Initial Z-offset (m)'' = Some offset"
       "header d ''Z Spectroscopy>Sweep distance (m)'' = Some sweep_z"
       "header d ''Z Spectroscopy>Number of sweeps'' = Some nz"
    and eq: "params = Map.empty
             (''bias'' \<mapsto> bias, ''current'' \<mapsto> current, ''sweep_num'' \<mapsto> nb,
              ''offset'' \<mapsto> offset, ''sweep_z'' \<mapsto> sweep_z, ''sweep_num'' \<mapsto> nz,
              ''comment'' \<mapsto> comment, ''saved_date'' \<mapsto> format_date_dat saved_date)"
    by blast
  have "dom params = {''bias'', ''current'', ''sweep_num'', ''offset'', ''sweep_z'',
                       ''comment'', ''saved_date''}"
    unfolding eq by (simp add: insert_commute)
  moreover have "params ''offset'' = Some offset" "params ''sweep_z'' = Some sweep_z"
    "params ''sweep_num'' = Some nz"
    unfolding eq by simp_all
  ultimately show ?thesis using h by simp
qed

lemma get_dat_parameters_bias_facts:
  assumes "''Z rel (m)'' \<notin> dom (signals d)" and "get_dat_parameters d = Inr params"
  shows "dom params = {''bias'', ''current'', ''sweep_start'', ''sweep_end'',
                       ''sweep_num'', ''comment'', ''saved_date''}
       \<and> params ''sweep_start'' = header d ''Bias Spectroscopy>Sweep Start (V)''
       \<and> params ''sweep_end'' = header d ''Bias Spectroscopy>Sweep End (V)''
       \<and> params ''sweep_num'' = header d ''Bias Spectroscopy>Number of sweeps''"
proof -
  from get_dat_parameters_bias_branch [OF assms]
  obtain bias current sweep_start sweep_end nb comment saved_date where
    h: "header d ''Bias Spectroscopy>Sweep Start (V)'' = Some sweep_start"
       "header d ''Bias Spectroscopy>Sweep End (V)'' = Some sweep_end"
       "header d ''Bias Spectroscopy>Number of sweeps'' = Some nb"
    and eq: "params = Map.empty
             (''bias'' \<mapsto> bias, ''current'' \<mapsto> current, ''sweep_start'' \<mapsto> sweep_start,
              ''sweep_end'' \<mapsto> sweep_end, ''sweep_num'' \<mapsto> nb,
              ''comment'' \<mapsto> comment, ''saved_date'' \<mapsto> format_date_dat saved_date)"
    by blast
  have "dom params = {''bias'', ''current'', ''sweep_start'', ''sweep_end'',
                       ''sweep_num'', ''comment'', ''saved_date''}"
    unfolding eq by (simp add: insert_commute)
  moreover have "params ''sweep_start'' = Some sweep_start"
    "params ''sweep_end'' = Some sweep_end" "params ''sweep_num'' = Some nb"
    unfolding eq by simp_all
  ultimately show ?thesis using h by simp
qed

text \<open>
  C5. When every header key a branch reads is present, parameter extraction returns a
  parameter set; and whenever it returns one, that set is the Z-sweep one (offset, sweep
  distance, Z sweep count) if the signals contain \<open>Z rel (m)\<close>, and the bias-sweep one
  (sweep start, sweep end, bias sweep count) if they do not.
\<close>

theorem get_dat_parameters_branch:
  "(''Z rel (m)'' \<in> dom (signals d) \<and> z_sweep_keys \<subseteq> dom (header d)
      \<longrightarrow> (\<exists>ps. get_dat_parameters d = Inr ps))
   \<and> (''Z rel (m)'' \<notin> dom (signals d) \<and> bias_sweep_keys \<subseteq> dom (header d)
      \<longrightarrow> (\<exists>ps. get_dat_parameters d = Inr ps))
   \<and> (get_dat_parameters d = Inr params \<longrightarrow>
        (if ''Z rel (m)'' \<in> dom (signals d)
         then dom params = {''bias'', ''current'', ''sweep_num'', ''offset'', ''sweep_z'',
                            ''comment'', ''saved_date''}
            \<and> params ''offset'' = header d ''Z Spectroscopy>Initial Z-offset (m)''
            \<and> params ''sweep_z'' = header d ''Z Spectroscopy>Sweep distance (m)''
            \<and> params ''sweep_num'' = header d ''Z Spectroscopy>Number of sweeps''
         else dom params = {''bias'', ''current'', ''sweep_start'', ''sweep_end'',
                            ''sweep_num'', ''comment'', ''saved_date''}
            \<and> params ''sweep_start'' = header d ''Bias Spectroscopy>Sweep Start (V)''
            \<and> params ''sweep_end'' = header d ''Bias Spectroscopy>Sweep End (V)''
            \<and> params ''sweep_num'' = header d ''Bias Spectroscopy>Number of sweeps''))"
proof (intro conjI impI)
  assume "''Z rel (m)'' \<in> dom (signals d) \<and> z_sweep_keys \<subseteq> dom (header d)"
  then show "\<exists>ps. get_dat_parameters d = Inr ps"
    using get_dat_parameters_z_returns by blast
next
  assume "''Z rel (m)'' \<notin> dom (signals d) \<and> bias_sweep_keys \<subseteq> dom (header d)"
  then show "\<exists>ps. get_dat_parameters d = Inr ps"
    using get_dat_parameters_bias_returns by blast
next
  assume r: "get_dat_parameters d = Inr params"
  show "if ''Z rel (m)'' \<in> dom (signals d)
         then dom params = {''bias'', ''current'', ''sweep_num'', ''offset'', ''sweep_z'',
                            ''comment'', ''saved_date''}
            \<and> params ''offset'' = header d ''Z Spectroscopy>Initial Z-offset (m)''
            \<and> params ''sweep_z'' = header d ''Z Spectroscopy>Sweep distance (m)''
            \<and> params ''sweep_num'' = header d ''Z Spectroscopy>Number of sweeps''
         else dom params = {''bias'', ''current'', ''sweep_start'', ''sweep_end'',
                            ''sweep_num'', ''comment'', ''saved_date''}
            \<and> params ''sweep_start'' = header d ''Bias Spectroscopy>Sweep Start (V)''
            \<and> params ''sweep_end'' = header d ''Bias Spectroscopy>Sweep End (V)''
            \<and> params ''sweep_num'' = header d ''Bias Spectroscopy>Number of sweeps''"
  proof (cases "''Z rel (m)'' \<in> dom (signals d)")
    case True
    from get_dat_parameters_z_facts [OF True r] show ?thesis
      using True by simp
  next
    case False
    from get_dat_parameters_bias_facts [OF False r] show ?thesis
      using False by simp
  qed
qed

lemma dat_header_keys: "z_sweep_keys \<subseteq> dom dat_header" "bias_sweep_keys \<subseteq> dom dat_header"
  by (simp_all add: z_sweep_keys_def bias_sweep_keys_def dat_header_def)

theorem get_dat_parameters_branch_witness:
  "(\<exists>ps. get_dat_parameters z_record = Inr ps
         \<and> ps ''sweep_z'' = Some (PStr ''1'') \<and> ps ''sweep_start'' = None)
   \<and> (\<exists>ps. get_dat_parameters bias_record = Inr ps
         \<and> ps ''sweep_z'' = None \<and> ps ''sweep_start'' = Some (PStr ''0''))"
proof -
  have z: "''Z rel (m)'' \<in> dom (signals z_record) \<and> z_sweep_keys \<subseteq> dom (header z_record)"
    using dat_header_keys by (simp add: z_record_def)
  have b: "''Z rel (m)'' \<notin> dom (signals bias_record)
           \<and> bias_sweep_keys \<subseteq> dom (header bias_record)"
    using dat_header_keys by (simp add: bias_record_def)
  from z get_dat_parameters_branch [of z_record] obtain p where
    p: "get_dat_parameters z_record = Inr p" by blast
  from b get_dat_parameters_branch [of bias_record] obtain q where
    q: "get_dat_parameters bias_record = Inr q" by blast
  have hz: "header z_record ''Z Spectroscopy>Sweep distance (m)'' = Some (PStr ''1'')"
    by (simp add: z_record_def dat_header_def)
  have hb: "header bias_record ''Bias Spectroscopy>Sweep Start (V)'' = Some (PStr ''0'')"
    by (simp add: bias_record_def dat_header_def)
  from p z get_dat_parameters_branch [of z_record p]
  have dp: "dom p = {''bias'', ''current'', ''sweep_num'', ''offset'', ''sweep_z'',
                     ''comment'', ''saved_date''}"
    and sp: "p ''sweep_z'' = header z_record ''Z Spectroscopy>Sweep distance (m)''"
    by simp_all
  have "''sweep_start'' \<notin> dom p" unfolding dp by simp
  then have "p ''sweep_start'' = None" by (simp add: domIff)
  with sp hz have "p ''sweep_z'' = Some (PStr ''1'') \<and> p ''sweep_start'' = None"
    by simp
  moreover from q b get_dat_parameters_branch [of bias_record q]
  have dq: "dom q = {''bias'', ''current'', ''sweep_start'', ''sweep_end'',
                     ''sweep_num'', ''comment'', ''saved_date''}"
    and sq: "q ''sweep_start'' = header bias_record ''Bias Spectroscopy>Sweep Start (V)''"
    by simp_all
  have "''sweep_z'' \<notin> dom q" unfolding dq by simp
  then have "q ''sweep_z'' = None" by (simp add: domIff)
  with sq hb have "q ''sweep_z'' = None \<and> q ''sweep_start'' = Some (PStr ''0'')"
    by simp
  ultimately show ?thesis using p q by blast
qed

text \<open>
  C10. For a record whose signals contain \<open>Z rel (m)\<close> and whose header has the keys the
  branch reads, extraction returns a parameter set whose \<open>sweep_num\<close> is the header value
  of \<open>Z Spectroscopy>Number of sweeps\<close>: the later of the two entries for that key wins,
  and the value of \<open>Bias Spectroscopy>Number of sweeps\<close> is overwritten.
\<close>

theorem z_sweep_num_from_z_spectroscopy:
  assumes "''Z rel (m)'' \<in> dom (signals d)" and "z_sweep_keys \<subseteq> dom (header d)"
  shows "\<exists>params. get_dat_parameters d = Inr params
           \<and> params ''sweep_num'' = header d ''Z Spectroscopy>Number of sweeps''"
proof -
  from get_dat_parameters_z_returns [OF assms] obtain params where
    r: "get_dat_parameters d = Inr params" by blast
  from get_dat_parameters_z_branch [OF assms(1) r]
  have "params ''sweep_num'' = header d ''Z Spectroscopy>Number of sweeps''" by auto
  with r show ?thesis by blast
qed

theorem z_sweep_num_from_z_spectroscopy_witness:
  "''Z rel (m)'' \<in> dom (signals z_record) \<and> z_sweep_keys \<subseteq> dom (header z_record)
   \<and> header z_record ''Bias Spectroscopy>Number of sweeps'' = Some (PStr ''3'')
   \<and> (\<exists>params. get_dat_parameters z_record = Inr params
          \<and> params ''sweep_num'' = Some (PStr ''7''))"
proof -
  have z: "''Z rel (m)'' \<in> dom (signals z_record)" "z_sweep_keys \<subseteq> dom (header z_record)"
    using dat_header_keys by (simp_all add: z_record_def)
  have h: "header z_record ''Z Spectroscopy>Number of sweeps'' = Some (PStr ''7'')"
    "header z_record ''Bias Spectroscopy>Number of sweeps'' = Some (PStr ''3'')"
    by (simp_all add: z_record_def dat_header_def)
  from z_sweep_num_from_z_spectroscopy [OF z] show ?thesis
    using z h by simp
qed

section \<open>The aspect ratio\<close>

lemma aspect_ratio_of_pairs:
  assumes "params ''pixels'' = Some (PTup [PNum px, PNum py])"
    and "params ''range'' = Some (PTup [PNum rx, PNum ry])"
    and "py \<noteq> 0" and "rx \<noteq> 0"
  shows "aspect_ratio_of params = Inr (PNum ((px / py) * (ry / rx)))"
  using assms unfolding aspect_ratio_of_def
  by (simp add: lookup_key_Some ebind_Inr)

text \<open>
  C6. For a topography record whose header gives the pixel counts \<open>(px, py)\<close> and the
  scan range \<open>(rx, ry)\<close>, with \<open>py\<close> and \<open>rx\<close> not zero, and has the other keys read,
  parameter extraction returns a parameter set whose \<open>aspect_ratio\<close> is
  \<open>(px / py) * (ry / rx)\<close>. Floats are taken as reals.
\<close>

theorem sxm_aspect_ratio:
  assumes "header d ''scan_pixels'' = Some (PTup [PNum px, PNum py])"
    and "header d ''scan_range'' = Some (PTup [PNum rx, PNum ry])"
    and "py \<noteq> 0" and "rx \<noteq> 0"
    and "sxm_other_keys \<subseteq> dom (header d)"
  shows "\<exists>params. get_sxm_parameters d = Inr params
           \<and> params ''aspect_ratio'' = Some (PNum ((px / py) * (ry / rx)))"
proof -
  have mem: "''scan_dir'' \<in> dom (header d)" "''scan_angle'' \<in> dom (header d)"
    "''bias>bias (v)'' \<in> dom (header d)" "''z-controller>setpoint'' \<in> dom (header d)"
    "''rec_time'' \<in> dom (header d)" "''rec_date'' \<in> dom (header d)"
    using assms(5) unfolding sxm_other_keys_def by simp_all
  obtain direction where 3: "lookup_key (header d) ''scan_dir'' = Inr direction"
    using lookup_key_dom [OF mem(1)] by blast
  obtain angle where 4: "lookup_key (header d) ''scan_angle'' = Inr angle"
    using lookup_key_dom [OF mem(2)] by blast
  obtain bias where 5: "lookup_key (header d) ''bias>bias (v)'' = Inr bias"
    using lookup_key_dom [OF mem(3)] by blast
  obtain current where 6: "lookup_key (header d) ''z-controller>setpoint'' = Inr current"
    using lookup_key_dom [OF mem(4)] by blast
  obtain scan_time where 7: "lookup_key (header d) ''rec_time'' = Inr scan_time"
    using lookup_key_dom [OF mem(5)] by blast
  obtain rec_date where 8: "lookup_key (header d) ''rec_date'' = Inr rec_date"
    using lookup_key_dom [OF mem(6)] by blast
  have 1: "lookup_key (header d) ''scan_pixels'' = Inr (PTup [PNum px, PNum py])"
    using assms(1) by (simp add: lookup_key_def)
  have 2: "lookup_key (header d) ''scan_range'' = Inr (PTup [PNum rx, PNum ry])"
    using assms(2) by (simp add: lookup_key_def)
  define params where "params = Map.empty
             (''pixels'' \<mapsto> PTup [PNum px, PNum py], ''range'' \<mapsto> PTup [PNum rx, PNum ry],
              ''direction'' \<mapsto> direction,
              ''angle'' \<mapsto> angle, ''bias'' \<mapsto> bias, ''current'' \<mapsto> current,
              ''scan_time'' \<mapsto> scan_time, ''scan_date'' \<mapsto> format_date_sxm rec_date)"
  have "params ''pixels'' = Some (PTup [PNum px, PNum py])"
    "params ''range'' = Some (PTup [PNum rx, PNum ry])"
    by (simp_all add: params_def)
  then have a: "aspect_ratio_of params = Inr (PNum ((px / py) * (ry / rx)))"
    using assms(3,4) by (rule aspect_ratio_of_pairs)
  have "get_sxm_parameters d
        = Inr (params(''aspect_ratio'' \<mapsto> PNum ((px / py) * (ry / rx))))"
    unfolding get_sxm_parameters_def
    by (simp only: 1 2 3 4 5 6 7 8 ebind_Inr Let_def params_def [symmetric] a)
  then show ?thesis by simp
qed

lemma sxm_header_keys: "sxm_other_keys \<subseteq> dom sxm_header"
  by (simp add: sxm_other_keys_def sxm_header_def)

theorem sxm_aspect_ratio_witness:
  "\<exists>params. get_sxm_parameters sxm_record = Inr params
     \<and> params ''aspect_ratio'' = Some (PNum 1)"
proof -
  have h: "header sxm_record ''scan_pixels'' = Some (PTup [PNum 512, PNum 256])"
    "header sxm_record ''scan_range'' = Some (PTup [PNum (100 / 10 ^ 9), PNum (50 / 10 ^ 9)])"
    by (simp_all add: sxm_record_def sxm_header_def)
  have k: "sxm_other_keys \<subseteq> dom (header sxm_record)"
    using sxm_header_keys by (simp add: sxm_record_def)
  have "(512::real) / 256 * (50 / 10 ^ 9 / (100 / 10 ^ 9)) = 1" by simp
  with sxm_aspect_ratio [OF h _ _ k] show ?thesis by simp
qed

section \<open>The colour-scale limits\<close>

lemma not_nan_filter: "not_nan a = map the (filter (\<lambda>s. s \<noteq> None) a)"
  unfolding not_nan_def by (induction a) (auto split: option.splits)

text \<open>
  C7. The limits are the two-element array \<open>[mean - 3 * sigma, mean + 3 * sigma]\<close>, where
  \<open>mean\<close> is the arithmetic mean and \<open>sigma\<close> the standard deviation (divisor: the number
  of entries) of the entries that are not not-a-number; when no entry is left, both
  limits are not-a-number.
\<close>

theorem three_sigma_limits:
  "get_3sigma_limits a =
     (let xs = map the (filter (\<lambda>s. s \<noteq> None) a);
          mean = sum_list xs / real (length xs);
          sigma = sqrt (sum_list (map (\<lambda>x. (x - mean) ^ 2) xs) / real (length xs))
      in if xs = [] then [None, None]
         else [Some (mean - 3 * sigma), Some (mean + 3 * sigma)])"
  by (simp add: get_3sigma_limits_def nanmean_def nanstd_def mean_of_def std_of_def
      Let_def not_nan_filter)

theorem three_sigma_limits_witness:
  "get_3sigma_limits [Some 0, None, Some 4] = [Some (- 4), Some 8]
   \<and> get_3sigma_limits [None, None] = [None, None]"
  using three_sigma_limits [of "[Some 0, None, Some 4]"] three_sigma_limits [of "[None, None]"]
  by simp

section \<open>The plots of a topography record\<close>

lemma unpack2_limits:
  "unpack2 (get_3sigma_limits z) = Inr (get_3sigma_limits z ! 0, get_3sigma_limits z ! 1)"
  by (simp add: get_3sigma_limits_def Let_def)

lemma render_map_ok:
  assumes "\<forall>f. savefig E f = None" and "params ''aspect_ratio'' = Some asp"
  shows "render_map E params z origin cm pl = Inr (map_image z origin asp cm pl)"
  using assms
  by (simp add: render_map_def unpack2_limits ebind_Inr lookup_key_def save_png_def
      map_image_def)

lemma process_sxm_file_length:
  assumes "process_sxm_file E d = Inr imgs"
  shows "length imgs = (if ''LI_Demod_1_X'' \<in> dom (signals d) then 3 else 2)"
  using assms unfolding process_sxm_file_def Let_def
  by (auto simp: ebind_Inr_iff split: if_splits)

lemma process_sxm_file_returns:
  assumes "get_scan_parameters d = Inr params"
    and "params ''direction'' = Some direction" and "params ''aspect_ratio'' = Some asp"
    and "topography_get_z E d ''subtract linear fit'' ''fwd'' = Inr z"
    and "topography_get_z E d ''differentiate'' ''fwd'' = Inr dz"
    and "''LI_Demod_1_X'' \<in> dom (signals d) \<longrightarrow> didvmap_get_map E d = Inr m"
    and "\<forall>f. savefig E f = None"
  shows "process_sxm_file E d =
           Inr (let origin = (if direction = PStr ''down'' then ''upper'' else ''lower'') in
                if ''LI_Demod_1_X'' \<in> dom (signals d)
                then [map_image z origin asp Nanox False, map_image dz origin asp Nanox True,
                      map_image m origin asp Bwr False]
                else [map_image z origin asp Nanox False, map_image dz origin asp Nanox True])"
proof -
  have l: "lookup_key params ''direction'' = Inr direction"
    using assms(2) by (simp add: lookup_key_def)
  have r: "render_map E params a origin cm pl = Inr (map_image a origin asp cm pl)"
    for a origin cm pl
    using assms(7) assms(3) by (rule render_map_ok)
  show ?thesis
    unfolding process_sxm_file_def using assms(6)
    by (simp add: assms(1,4,5) l r ebind_Inr Let_def)
qed

lemma pictures_place:
  "length (pictures (place2 s p)) = length (pictures s) + 2"
  "length (pictures (place3 s q)) = length (pictures s) + 3"
  by (cases p, simp add: place2_def add_picture_def)
     (cases q, simp add: place3_def place2_def add_picture_def)

lemma slide_content_sxm_pictures:
  assumes "endswith (fname d) ''.sxm''" and "slide_content E d s = (s', Inr r)"
  shows "length (pictures s')
           = length (pictures s) + (if ''LI_Demod_1_X'' \<in> dom (signals d) then 3 else 2)"
  using assms unfolding slide_content_def
  by (auto simp: pictures_place split: sum.splits if_splits)

lemma add_slide_sxm_pictures:
  assumes "endswith (fname d) ''.sxm''" and "add_slide E p d = (q, None)"
  shows "length (pictures (last q))
           = (if ''LI_Demod_1_X'' \<in> dom (signals d) then 3 else 2)"
proof -
  define n :: nat where "n = (if ''LI_Demod_1_X'' \<in> dom (signals d) then 3 else 2)"
  obtain s' r where c:
    "slide_content E d \<lparr>title = ''File: '' @ fname d, pictures = [], textboxes = []\<rparr> = (s', r)"
    by (cases "slide_content E d \<lparr>title = ''File: '' @ fname d, pictures = [], textboxes = []\<rparr>")
  show ?thesis
  proof (cases r)
    case (Inl e)
    with c assms(2) show ?thesis by (simp add: add_slide_def)
  next
    case (Inr tt)
    from slide_content_sxm_pictures [OF assms(1) c [unfolded Inr]]
    have "length (pictures s') = n" by (simp add: n_def)
    with c Inr assms(2) have "length (pictures (last q)) = n"
      by (cases tt) (auto simp: add_slide_def add_textbox_def)
    then show ?thesis by (simp add: n_def)
  qed
qed

text \<open>
  C8. Whenever the renderer of a topography record returns, it returns three buffers if
  the signals contain \<open>LI_Demod_1_X\<close> and two if they do not. It does return when the
  parameters are extracted, the analysis helpers give their arrays and saving a figure
  does not fail; the buffers are then the height map, its derivative and, in the first
  case, the lock-in map, each drawn with the three-sigma limits of its array. A slide that
  \<open>add_slide\<close> completes for such a record carries as many pictures.
\<close>

theorem process_sxm_file_images:
  "(process_sxm_file E d = Inr imgs \<longrightarrow>
      length imgs = (if ''LI_Demod_1_X'' \<in> dom (signals d) then 3 else 2))
   \<and> (get_scan_parameters d = Inr params
       \<and> params ''direction'' = Some direction \<and> params ''aspect_ratio'' = Some asp
       \<and> topography_get_z E d ''subtract linear fit'' ''fwd'' = Inr z
       \<and> topography_get_z E d ''differentiate'' ''fwd'' = Inr dz
       \<and> (''LI_Demod_1_X'' \<in> dom (signals d) \<longrightarrow> didvmap_get_map E d = Inr m)
       \<and> (\<forall>f. savefig E f = None)
      \<longrightarrow> process_sxm_file E d =
           Inr (let origin = (if direction = PStr ''down'' then ''upper'' else ''lower'') in
                if ''LI_Demod_1_X'' \<in> dom (signals d)
                then [map_image z origin asp Nanox False, map_image dz origin asp Nanox True,
                      map_image m origin asp Bwr False]
                else [map_image z origin asp Nanox False, map_image dz origin asp Nanox True]))
   \<and> (endswith (fname d) ''.sxm'' \<and> add_slide E p d = (q, None) \<longrightarrow>
        length (pictures (last q)) = (if ''LI_Demod_1_X'' \<in> dom (signals d) then 3 else 2))"
  using process_sxm_file_length [of E d imgs]
    process_sxm_file_returns [of d params direction asp E z dz m]
    add_slide_sxm_pictures [of d E p q]
  by blast

lemma sxm_record_params:
  "get_scan_parameters sxm_record = Inr sxm_params"
  "get_scan_parameters sxm_li_record = Inr sxm_params"
  by (simp_all add: get_scan_parameters_def sxm_record_def sxm_li_record_def endswith_def
      get_sxm_parameters_def sxm_header_def lookup_key_def ebind_def aspect_ratio_of_def
      format_date_sxm_def sxm_params_def)

theorem process_sxm_file_images_witness:
  "process_sxm_file (test_env [] sxm_header Map.empty) sxm_record
     = Inr [map_image [Some 0, None, Some 4] ''upper'' (PNum 1) Nanox False,
            map_image [Some 0, None, Some 4] ''upper'' (PNum 1) Nanox True]
   \<and> process_sxm_file (test_env [] sxm_header Map.empty) sxm_li_record
     = Inr [map_image [Some 0, None, Some 4] ''upper'' (PNum 1) Nanox False,
            map_image [Some 0, None, Some 4] ''upper'' (PNum 1) Nanox True,
            map_image [Some 1, Some 3] ''upper'' (PNum 1) Bwr False]"
proof -
  have p: "sxm_params ''direction'' = Some (PStr ''down'')"
    "sxm_params ''aspect_ratio'' = Some (PNum 1)"
    by (simp_all add: sxm_params_def)
  have s: "''LI_Demod_1_X'' \<notin> dom (signals sxm_record)"
    "''LI_Demod_1_X'' \<in> dom (signals sxm_li_record)"
    by (simp_all add: sxm_record_def sxm_li_record_def)
  have e: "topography_get_z (test_env [] sxm_header Map.empty) d how dir
             = Inr [Some 0, None, Some 4]"
    "didvmap_get_map (test_env [] sxm_header Map.empty) d = Inr [Some 1, Some 3]"
    "\<forall>f. savefig (test_env [] sxm_header Map.empty) f = None" for d how dir
    by (simp_all add: test_env_def)
  from process_sxm_file_images
    [of "test_env [] sxm_header Map.empty" sxm_record _ sxm_params "PStr ''down''" "PNum 1"
        "[Some 0, None, Some 4]" "[Some 0, None, Some 4]" "[Some 1, Some 3]"]
    process_sxm_file_images
    [of "test_env [] sxm_header Map.empty" sxm_li_record _ sxm_params "PStr ''down''" "PNum 1"
        "[Some 0, None, Some 4]" "[Some 0, None, Some 4]" "[Some 1, Some 3]"]
  show ?thesis
    using p s e sxm_record_params by (simp add: Let_def)
qed

section \<open>The slide of a grid-spectroscopy record\<close>

lemma endswith_3ds_only:
  assumes "endswith s ''.3ds''"
  shows "\<not> endswith s ''.sxm''" and "\<not> endswith s ''.dat''"
  using assms by (auto simp: endswith_def)

text \<open>
  C9 (what the code does for a \<open>.3ds\<close> file). The placeholder image is rendered, but the
  slide ends with its title and the caption only: no picture is laid onto it.
\<close>

theorem add_slide_3ds_has_no_picture:
  assumes "endswith (fname d) ''.3ds''" and "savefig E Blank = None"
  shows "add_slide E p d =
           (p @ [\<lparr>title = ''File: '' @ fname d, pictures = [],
                  textboxes = [\<lparr>tb_left = 1, tb_top = 6, tb_width = 8, tb_height = 1 / 2,
                                 tb_text = ''3DS file parameters''\<rparr>]\<rparr>], None)"
  using assms endswith_3ds_only [OF assms(1)]
  by (simp add: add_slide_def slide_content_def get_scan_parameters_def
      get_3ds_parameters_def get_3ds_info_text_def process_3ds_file_def save_png_def
      ebind_def add_textbox_def)

theorem add_slide_3ds_has_no_picture_witness:
  "map pictures (fst (add_slide (test_env [] sxm_header Map.empty) [] grid_record)) = [[]]
   \<and> process_3ds_file (test_env [] sxm_header Map.empty) grid_record = Inr (Png Blank)"
proof -
  have a: "endswith (fname grid_record) ''.3ds''"
    by (simp add: grid_record_def endswith_def)
  have b: "savefig (test_env [] sxm_header Map.empty) Blank = None"
    by (simp add: test_env_def)
  from add_slide_3ds_has_no_picture [OF a b, of "[]"] show ?thesis
    using b by (simp add: process_3ds_file_def save_png_def)
qed

section \<open>The file resolver\<close>

lemma length_dec_digits: "0 < k \<Longrightarrow> n < 10 ^ k \<Longrightarrow> length (dec_digits n) \<le> k"
proof (induction k arbitrary: n)
  case 0
  then show ?case by simp
next
  case (Suc k)
  show ?case
  proof (cases "n < 10")
    case True
    then show ?thesis by (simp add: dec_digits.simps [of n])
  next
    case False
    with Suc.prems have k: "0 < k" by (cases k) auto
    from Suc.prems have "n div 10 < 10 ^ k" by (simp add: less_mult_imp_div_less)
    from Suc.IH [OF k this] False show ?thesis
      by (simp add: dec_digits.simps [of n])
  qed
qed

lemma length_zfill: "length (zfill w s) = max w (length s)"
  by (cases s) (auto simp: zfill_def)

lemma length_number_str:
  assumes "0 \<le> i" and "i < 10000"
  shows "length (number_str (IntNumber i)) = 4"
proof -
  from assms have "nat i < 10 ^ 4" by simp
  then have "length (dec_digits (nat i)) \<le> 4"
    by (intro length_dec_digits) simp_all
  with assms(1) show ?thesis
    by (simp add: length_zfill str_int_def)
qed

text \<open>
  C1 (as amended). For a numeric index (or an index given as a string) the resolver
  globs for the pattern built from the base directory, the optional keyword and the
  index padded with zeros to four digits. No match: it raises \<open>ValueError\<close> with the
  "No file found" message. One match: that path, nothing printed. Two or more: the
  first match in the order the glob returned them, after a warning that lists every
  match.
\<close>

theorem resolve_filepath_policy:
  assumes "n \<noteq> NoNumber"
  shows "(glob E (glob_pattern bp n kw) = [] \<longrightarrow>
            resolve_filepath E bp n kw = ([], Inl (ValueError (no_file_message n kw))))
       \<and> (glob E (glob_pattern bp n kw) = [f] \<longrightarrow>
            resolve_filepath E bp n kw = ([], Inr f))
       \<and> (glob E (glob_pattern bp n kw) = f # g # fs \<longrightarrow>
            resolve_filepath E bp n kw =
              (''Warning: Multiple files found. Files found:''
                 # map (\<lambda>m. ''- '' @ basename m) (f # g # fs)
                 @ [''Using the first one: '' @ basename f],
               Inr f))
       \<and> (0 \<le> i \<and> i < 10000 \<longrightarrow> length (number_str (IntNumber i)) = 4)
       \<and> glob_pattern bp n None = path_join bp (''*_'' @ number_str n @ ''.*'')
       \<and> (k \<noteq> [] \<longrightarrow> glob_pattern bp n (Some k)
                        = path_join bp (''*'' @ k @ ''*_'' @ number_str n @ ''.*''))"
  using assms length_number_str [of i]
  by (cases n) (simp_all add: resolve_filepath_def multiple_files_warning_def glob_pattern_def)

theorem resolve_filepath_policy_witness:
  "resolve_filepath (test_env [''a_0010.sxm'', ''b_0012.dat''] sxm_header Map.empty)
       ''/d/'' (IntNumber 11) None
     = ([], Inl (ValueError ''No file found with number 0011''))
   \<and> resolve_filepath (test_env [''a_0010.sxm'', ''b_0012.dat''] sxm_header Map.empty)
       ''/d/'' (IntNumber 10) None
     = ([], Inr ''/d/a_0010.sxm'')
   \<and> resolve_filepath (test_env [''b_0010.sxm'', ''a_0010.sxm'', ''Au_0010.dat''] sxm_header Map.empty)
       ''/d/'' (IntNumber 10) None
     = ([''Warning: Multiple files found. Files found:'', ''- b_0010.sxm'', ''- a_0010.sxm'',
         ''- Au_0010.dat'', ''Using the first one: b_0010.sxm''],
        Inr ''/d/b_0010.sxm'')
   \<and> resolve_filepath (test_env [''b_0010.sxm'', ''a_0010.sxm'', ''Au_0010.dat''] sxm_header Map.empty)
       ''/d/'' (IntNumber 10) (Some ''Au'')
     = ([], Inr ''/d/Au_0010.dat'')"
proof -
  have p: "glob_pattern ''/d/'' (IntNumber 11) None = ''/d/*_0011.*''"
    "glob_pattern ''/d/'' (IntNumber 10) None = ''/d/*_0010.*''"
    "glob_pattern ''/d/'' (IntNumber 10) (Some ''Au'') = ''/d/*Au*_0010.*''"
    "no_file_message (IntNumber 11) None = ''No file found with number 0011''"
    by code_simp+
  have g: "dir_glob ''/d/'' [''a_0010.sxm'', ''b_0012.dat''] ''/d/*_0011.*'' = []"
    "dir_glob ''/d/'' [''a_0010.sxm'', ''b_0012.dat''] ''/d/*_0010.*'' = [''/d/a_0010.sxm'']"
    "dir_glob ''/d/'' [''b_0010.sxm'', ''a_0010.sxm'', ''Au_0010.dat''] ''/d/*_0010.*''
       = [''/d/b_0010.sxm'', ''/d/a_0010.sxm'', ''/d/Au_0010.dat'']"
    "dir_glob ''/d/'' [''b_0010.sxm'', ''a_0010.sxm'', ''Au_0010.dat''] ''/d/*Au*_0010.*''
       = [''/d/Au_0010.dat'']"
    by code_simp+
  have b: "basename ''/d/b_0010.sxm'' = ''b_0010.sxm''"
    "basename ''/d/a_0010.sxm'' = ''a_0010.sxm''"
    "basename ''/d/Au_0010.dat'' = ''Au_0010.dat''"
    by code_simp+
  have n: "IntNumber j \<noteq> NoNumber" for j by simp
  have e: "glob (test_env names h sg) = dir_glob ''/d/'' names" for names h sg
    by (simp add: test_env_def)
  have 1: "resolve_filepath (test_env [''a_0010.sxm'', ''b_0012.dat''] sxm_header Map.empty)
       ''/d/'' (IntNumber 11) None
     = ([], Inl (ValueError ''No file found with number 0011''))"
    using resolve_filepath_policy
         [OF n, of "test_env [''a_0010.sxm'', ''b_0012.dat''] sxm_header Map.empty"
            "''/d/''" 11 None, THEN conjunct1]
    by (simp add: p g e)
  have 2: "resolve_filepath (test_env [''a_0010.sxm'', ''b_0012.dat''] sxm_header Map.empty)
       ''/d/'' (IntNumber 10) None
     = ([], Inr ''/d/a_0010.sxm'')"
    using resolve_filepath_policy
         [OF n, of "test_env [''a_0010.sxm'', ''b_0012.dat''] sxm_header Map.empty"
            "''/d/''" 10 None "''/d/a_0010.sxm''", THEN conjunct2, THEN conjunct1]
    by (simp add: p g e)
  have 3: "resolve_filepath
       (test_env [''b_0010.sxm'', ''a_0010.sxm'', ''Au_0010.dat''] sxm_header Map.empty)
       ''/d/'' (IntNumber 10) None
     = ([''Warning: Multiple files found. Files found:'', ''- b_0010.sxm'', ''- a_0010.sxm'',
         ''- Au_0010.dat'', ''Using the first one: b_0010.sxm''],
        Inr ''/d/b_0010.sxm'')"
    using resolve_filepath_policy
         [OF n, of "test_env [''b_0010.sxm'', ''a_0010.sxm'', ''Au_0010.dat''] sxm_header Map.empty"
            "''/d/''" 10 None "''/d/b_0010.sxm''" "''/d/a_0010.sxm''" "[''/d/Au_0010.dat'']",
          THEN conjunct2, THEN conjunct2, THEN conjunct1]
    by (simp add: p g e b)
  have 4: "resolve_filepath
       (test_env [''b_0010.sxm'', ''a_0010.sxm'', ''Au_0010.dat''] sxm_header Map.empty)
       ''/d/'' (IntNumber 10) (Some ''Au'')
     = ([], Inr ''/d/Au_0010.dat'')"
    using resolve_filepath_policy
         [OF n, of "test_env [''b_0010.sxm'', ''a_0010.sxm'', ''Au_0010.dat''] sxm_header Map.empty"
            "''/d/''" 10 "Some ''Au''" "''/d/Au_0010.dat''", THEN conjunct2, THEN conjunct1]
    by (simp add: p g e)
  from 1 2 3 4 show ?thesis by blast
qed

text \<open>
  In a directory that the operating system enumerates as \<open>b_0010.sxm\<close>, \<open>a_0010.sxm\<close>,
  the resolver takes \<open>b_0010.sxm\<close>, while the least match is \<open>a_0010.sxm\<close>.
\<close>

theorem resolve_filepath_not_lexicographic_counterexample:
  "snd (resolve_filepath (test_env [''b_0010.sxm'', ''a_0010.sxm''] sxm_header Map.empty)
          ''/d/'' (IntNumber 10) None)
     = Inr ''/d/b_0010.sxm''
   \<and> lex_first (glob (test_env [''b_0010.sxm'', ''a_0010.sxm''] sxm_header Map.empty)
                  (glob_pattern ''/d/'' (IntNumber 10) None))
     = ''/d/a_0010.sxm''"
  by code_simp

section \<open>The batch loop\<close>

lemma title_add_picture: "title (add_picture s img x y w) = title s"
  by (simp add: add_picture_def)

lemma title_place: "title (place2 s p) = title s" "title (place3 s q) = title s"
  by (cases p, simp add: place2_def title_add_picture)
     (cases q, simp add: place3_def place2_def title_add_picture)

lemma slide_content_title: "title (fst (slide_content E d s)) = title s"
  unfolding slide_content_def
  by (simp add: title_place Let_def split: sum.splits)

lemma add_slide_shape:
  "\<exists>s. add_slide E p d = (p @ [s], snd (add_slide E [] d)) \<and> title s = ''File: '' @ fname d"
proof -
  obtain s' r where c:
    "slide_content E d \<lparr>title = ''File: '' @ fname d, pictures = [], textboxes = []\<rparr> = (s', r)"
    by (cases "slide_content E d \<lparr>title = ''File: '' @ fname d, pictures = [], textboxes = []\<rparr>")
  from slide_content_title
    [of E d "\<lparr>title = ''File: '' @ fname d, pictures = [], textboxes = []\<rparr>"] c
  have t: "title s' = ''File: '' @ fname d" by simp
  show ?thesis
  proof (cases r)
    case (Inl e)
    with c t show ?thesis by (simp add: add_slide_def)
  next
    case (Inr tt)
    with c t show ?thesis
      by (cases tt) (simp add: add_slide_def add_textbox_def)
  qed
qed

lemma try_body_load_fails:
  assumes "snd (NanonisData E bp (IntNumber i) kw) = Inl e"
  shows "try_body E bp kw i p = (p, fst (NanonisData E bp (IntNumber i) kw), Some e)"
  using assms by (cases "NanonisData E bp (IntNumber i) kw") (simp add: try_body_def)

lemma try_body_load_ok:
  assumes "snd (NanonisData E bp (IntNumber i) kw) = Inr d"
  shows "\<exists>s. try_body E bp kw i p =
           (p @ [s], fst (NanonisData E bp (IntNumber i) kw) @ [''Processing file: '' @ fname d],
            snd (add_slide E [] d))
         \<and> title s = ''File: '' @ fname d"
proof -
  from add_slide_shape [of E p d] obtain s where
    s: "add_slide E p d = (p @ [s], snd (add_slide E [] d))" "title s = ''File: '' @ fname d"
    by blast
  with assms show ?thesis
    by (cases "NanonisData E bp (IntNumber i) kw") (simp add: try_body_def)
qed

lemma try_body_exn: "snd (snd (try_body E bp kw i p)) = body_raises E bp kw i"
proof (cases "snd (NanonisData E bp (IntNumber i) kw)")
  case (Inl e)
  then show ?thesis
    by (simp add: body_raises_def try_body_load_fails)
next
  case (Inr d)
  from try_body_load_ok [OF Inr, of p] try_body_load_ok [OF Inr, of "[]"]
  show ?thesis
    by (auto simp: body_raises_def)
qed

lemma try_body_titles:
  "map title (fst (try_body E bp kw i p))
     = map title p @ map (\<lambda>d. ''File: '' @ fname d) (loaded_files E bp kw [i])"
proof (cases "snd (NanonisData E bp (IntNumber i) kw)")
  case (Inl e)
  then show ?thesis
    by (simp add: try_body_load_fails loaded_files_def map_filter_simps)
next
  case (Inr d)
  from try_body_load_ok [OF Inr, of p] Inr show ?thesis
    by (auto simp: loaded_files_def map_filter_simps)
qed

lemma loaded_files_Cons:
  "loaded_files E bp kw (i # is) = loaded_files E bp kw [i] @ loaded_files E bp kw is"
  by (simp add: loaded_files_def map_filter_simps split: option.splits)

lemma try_body_triple:
  "try_body E bp kw i p = (fst (try_body E bp kw i p), fst (snd (try_body E bp kw i p)),
     body_raises E bp kw i)"
  using try_body_exn [of E bp kw i p] by (cases "try_body E bp kw i p") auto

lemma batch_loop_Cons_None:
  assumes "body_raises E bp kw i = None"
  shows "batch_loop E bp kw (i # is) p =
           (fst (batch_loop E bp kw is (fst (try_body E bp kw i p))),
            fst (snd (try_body E bp kw i p))
              @ fst (snd (batch_loop E bp kw is (fst (try_body E bp kw i p)))),
            snd (snd (batch_loop E bp kw is (fst (try_body E bp kw i p)))))"
proof -
  obtain p' out where t: "try_body E bp kw i p = (p', out, body_raises E bp kw i)"
    using try_body_triple by blast
  show ?thesis by (simp add: t assms split: prod.splits)
qed

lemma batch_loop_Cons_ValueError:
  assumes "body_raises E bp kw i = Some x" and "is_ValueError x"
  shows "batch_loop E bp kw (i # is) p =
           (fst (batch_loop E bp kw is (fst (try_body E bp kw i p))),
            fst (snd (try_body E bp kw i p)) @ [skip_line i x]
              @ fst (snd (batch_loop E bp kw is (fst (try_body E bp kw i p)))),
            snd (snd (batch_loop E bp kw is (fst (try_body E bp kw i p)))))"
proof -
  obtain p' out where t: "try_body E bp kw i p = (p', out, body_raises E bp kw i)"
    using try_body_triple by blast
  show ?thesis by (simp add: t assms split: prod.splits)
qed

lemma batch_loop_Cons_other:
  assumes "body_raises E bp kw i = Some x" and "\<not> is_ValueError x"
  shows "batch_loop E bp kw (i # is) p =
           (fst (try_body E bp kw i p), fst (snd (try_body E bp kw i p)), Some x)"
proof -
  obtain p' out where t: "try_body E bp kw i p = (p', out, body_raises E bp kw i)"
    using try_body_triple by blast
  show ?thesis by (simp add: t assms split: prod.splits)
qed

lemma batch_loop_titles:
  assumes "snd (snd (batch_loop E bp kw is p)) = None"
  shows "map title (fst (batch_loop E bp kw is p))
           = map title p @ map (\<lambda>d. ''File: '' @ fname d) (loaded_files E bp kw is)"
  using assms
proof (induction "is" arbitrary: p)
  case Nil
  then show ?case by (simp add: loaded_files_def map_filter_simps)
next
  case (Cons i "is")
  show ?case
  proof (cases "body_raises E bp kw i")
    case None
    from Cons.prems have "snd (snd (batch_loop E bp kw is (fst (try_body E bp kw i p)))) = None"
      by (simp del: batch_loop.simps add: batch_loop_Cons_None [OF None])
    from Cons.IH [OF this] show ?thesis
      by (simp del: batch_loop.simps add: batch_loop_Cons_None [OF None] try_body_titles
          loaded_files_Cons [of E bp kw i "is"])
  next
    case (Some x)
    show ?thesis
    proof (cases "is_ValueError x")
      case True
      from Cons.prems
      have "snd (snd (batch_loop E bp kw is (fst (try_body E bp kw i p)))) = None"
        by (simp del: batch_loop.simps add: batch_loop_Cons_ValueError [OF Some True])
      from Cons.IH [OF this] show ?thesis
        by (simp del: batch_loop.simps add: batch_loop_Cons_ValueError [OF Some True] try_body_titles
            loaded_files_Cons [of E bp kw i "is"])
    next
      case False
      with Cons.prems show ?thesis
        by (simp del: batch_loop.simps add: batch_loop_Cons_other [OF Some False])
    qed
  qed
qed

lemma batch_loop_benign:
  assumes "\<forall>j\<in>set is. \<forall>x. body_raises E bp kw j = Some x \<longrightarrow> is_ValueError x"
  shows "snd (snd (batch_loop E bp kw is p)) = None"
  using assms
proof (induction "is" arbitrary: p)
  case Nil
  then show ?case by simp
next
  case (Cons i "is")
  then have ih: "snd (snd (batch_loop E bp kw is q)) = None" for q by simp
  show ?case
  proof (cases "body_raises E bp kw i")
    case None
    then show ?thesis
      using ih [of "fst (try_body E bp kw i p)"]
      by (simp del: batch_loop.simps add: batch_loop_Cons_None)
  next
    case (Some x)
    with Cons.prems have "is_ValueError x" by simp
    with Some show ?thesis
      using ih [of "fst (try_body E bp kw i p)"]
      by (simp del: batch_loop.simps add: batch_loop_Cons_ValueError)
  qed
qed

lemma batch_loop_skip_line:
  assumes "\<forall>j\<in>set is. \<forall>x. body_raises E bp kw j = Some x \<longrightarrow> is_ValueError x"
    and "i \<in> set is" and "body_raises E bp kw i = Some x"
  shows "skip_line i x \<in> set (fst (snd (batch_loop E bp kw is p)))"
  using assms
proof (induction "is" arbitrary: p)
  case Nil
  then show ?case by simp
next
  case (Cons j "is")
  show ?case
  proof (cases "i = j")
    case True
    with Cons.prems have "is_ValueError x" by simp
    with Cons.prems(3) True show ?thesis
      by (simp del: batch_loop.simps add: batch_loop_Cons_ValueError)
  next
    case False
    with Cons.prems have mem: "i \<in> set is" by simp
    from Cons.prems have
      b: "\<forall>j\<in>set is. \<forall>x. body_raises E bp kw j = Some x \<longrightarrow> is_ValueError x" by simp
    note ih = Cons.IH [OF b mem Cons.prems(3), of "fst (try_body E bp kw j p)"]
    show ?thesis
    proof (cases "body_raises E bp kw j")
      case None
      with ih show ?thesis
        by (simp del: batch_loop.simps add: batch_loop_Cons_None)
    next
      case (Some y)
      with Cons.prems have "is_ValueError y" by simp
      with Some ih show ?thesis
        by (simp del: batch_loop.simps add: batch_loop_Cons_ValueError)
    qed
  qed
qed

lemma batch_loop_abort:
  assumes "\<forall>j\<in>set xs. \<forall>x. body_raises E bp kw j = Some x \<longrightarrow> is_ValueError x"
    and "body_raises E bp kw i = Some x" and "\<not> is_ValueError x"
  shows "snd (snd (batch_loop E bp kw (xs @ i # ys) p)) = Some x"
  using assms(1)
proof (induction xs arbitrary: p)
  case Nil
  show ?case by (simp del: batch_loop.simps add: batch_loop_Cons_other [OF assms(2,3)])
next
  case (Cons j xs)
  then have ih: "snd (snd (batch_loop E bp kw (xs @ i # ys) q)) = Some x" for q by simp
  show ?case
  proof (cases "body_raises E bp kw j")
    case None
    then show ?thesis
      using ih [of "fst (try_body E bp kw j p)"]
      by (simp del: batch_loop.simps add: batch_loop_Cons_None)
  next
    case (Some y)
    with Cons.prems have "is_ValueError y" by simp
    with Some show ?thesis
      using ih [of "fst (try_body E bp kw j p)"]
      by (simp del: batch_loop.simps add: batch_loop_Cons_ValueError)
  qed
qed

lemma generate_ppt_raised:
  "raised (generate_ppt E self) =
     (case snd (snd (batch_loop E (base_path self) (keyword self)
                       [start_num self .. end_num self] (prs self))) of
        Some e \<Rightarrow> Some e
      | None \<Rightarrow> pptx_save E (base_path self @ ''PPT/'' @ output_filename self))"
  by (simp add: generate_ppt_def Let_def split: prod.splits option.splits)

lemma generate_ppt_saved:
  "saved (generate_ppt E self) =
     (if raised (generate_ppt E self) = None
      then Some (base_path self @ ''PPT/'' @ output_filename self,
                 fst (batch_loop E (base_path self) (keyword self)
                        [start_num self .. end_num self] (prs self)))
      else None)"
  by (simp add: generate_ppt_def Let_def split: prod.splits option.splits)

lemma generate_ppt_stdout:
  "set (fst (snd (batch_loop E (base_path self) (keyword self)
                       [start_num self .. end_num self] (prs self))))
     \<subseteq> set (stdout (generate_ppt E self))"
  by (auto simp: generate_ppt_def Let_def split: prod.splits option.splits)

lemma body_raises_load_fails:
  assumes "snd (NanonisData E bp (IntNumber i) kw) = Inl e"
  shows "body_raises E bp kw i = Some e"
  by (simp add: body_raises_def try_body_load_fails [OF assms])

lemma body_raises_load_ok:
  assumes "snd (NanonisData E bp (IntNumber i) kw) = Inr d"
  shows "body_raises E bp kw i = snd (add_slide E [] d)"
  using try_body_load_ok [OF assms, of "[]"] by (auto simp: body_raises_def)

section \<open>The slides of a batch run\<close>

text \<open>
  C3. A run of a freshly built report builder that ends without raising writes a document
  whose slides are, in this order, one per index of the inclusive range for which the
  loader returned a record, each titled \<open>File: \<close> followed by the record's file name.
  The run ends without raising when no index raises an exception other than a
  \<open>ValueError\<close> and saving the document succeeds.
\<close>

theorem generate_ppt_slides:
  "(raised (generate_ppt E (DataToPPT_init bp s e kw out)) = None \<longrightarrow>
      (\<exists>slides. saved (generate_ppt E (DataToPPT_init bp s e kw out))
                   = Some (bp @ ''PPT/'' @ out, slides)
          \<and> map title slides
              = map (\<lambda>d. ''File: '' @ fname d) (loaded_files E bp kw [s .. e])))
   \<and> ((\<forall>j\<in>set [s .. e]. \<forall>x. body_raises E bp kw j = Some x \<longrightarrow> is_ValueError x)
        \<and> pptx_save E (bp @ ''PPT/'' @ out) = None
      \<longrightarrow> raised (generate_ppt E (DataToPPT_init bp s e kw out)) = None)"
proof (intro conjI impI)
  assume r: "raised (generate_ppt E (DataToPPT_init bp s e kw out)) = None"
  then have "snd (snd (batch_loop E bp kw [s .. e] [])) = None"
    by (simp add: generate_ppt_raised DataToPPT_init_def split: option.splits)
  from batch_loop_titles [OF this] r
  show "\<exists>slides. saved (generate_ppt E (DataToPPT_init bp s e kw out))
                   = Some (bp @ ''PPT/'' @ out, slides)
          \<and> map title slides
              = map (\<lambda>d. ''File: '' @ fname d) (loaded_files E bp kw [s .. e])"
    by (simp add: generate_ppt_saved DataToPPT_init_def)
next
  assume "(\<forall>j\<in>set [s .. e]. \<forall>x. body_raises E bp kw j = Some x \<longrightarrow> is_ValueError x)
        \<and> pptx_save E (bp @ ''PPT/'' @ out) = None"
  then show "raised (generate_ppt E (DataToPPT_init bp s e kw out)) = None"
    using batch_loop_benign [of "[s .. e]" E bp kw "[]"]
    by (simp add: generate_ppt_raised DataToPPT_init_def)
qed

section \<open>Failures during a batch run\<close>

lemma NanonisData_no_file:
  assumes "glob E (glob_pattern bp (IntNumber i) kw) = []"
  shows "snd (NanonisData E bp (IntNumber i) kw)
           = Inl (ValueError (no_file_message (IntNumber i) kw))"
  using assms by (simp add: NanonisData_def resolve_filepath_def)

lemma NanonisData_unsupported:
  assumes "glob E (glob_pattern bp (IntNumber i) kw) = f # fs"
    and "splitext_ext f \<notin> {''.sxm'', ''.dat'', ''.3ds''}"
  shows "snd (NanonisData E bp (IntNumber i) kw)
           = Inl (ValueError (''Unsupported file extension: '' @ splitext_ext f))"
  using assms by (simp add: NanonisData_def resolve_filepath_def load_by_extension_def Let_def)

text \<open>
  C2 (as amended). For index \<open>i\<close> the loader's "no file found" and "unsupported
  extension" failures are \<open>ValueError\<close>s raised in the body of the \<open>try\<close>. When every
  exception raised in that body over the range is a \<open>ValueError\<close> (from the loader or
  from building the slide), the run reaches the save, and each such exception is logged
  with its "Skipping number" line. When the body raises an exception of another kind at
  an index \<open>i\<close> of the range, and none before \<open>i\<close> did, that exception leaves the run
  and nothing is saved.
\<close>

theorem batch_error_policy:
  "(glob E (glob_pattern bp (IntNumber i) kw) = [] \<longrightarrow>
      body_raises E bp kw i = Some (ValueError (no_file_message (IntNumber i) kw)))
   \<and> (glob E (glob_pattern bp (IntNumber i) kw) = f # fs
        \<and> splitext_ext f \<notin> {''.sxm'', ''.dat'', ''.3ds''} \<longrightarrow>
      body_raises E bp kw i
        = Some (ValueError (''Unsupported file extension: '' @ splitext_ext f)))
   \<and> ((\<forall>j\<in>set [start_num self .. end_num self]. \<forall>y.
          body_raises E (base_path self) (keyword self) j = Some y \<longrightarrow> is_ValueError y) \<longrightarrow>
      raised (generate_ppt E self)
        = pptx_save E (base_path self @ ''PPT/'' @ output_filename self)
      \<and> (\<forall>j\<in>set [start_num self .. end_num self]. \<forall>y.
          body_raises E (base_path self) (keyword self) j = Some y \<longrightarrow>
          skip_line j y \<in> set (stdout (generate_ppt E self))))
   \<and> (start_num self \<le> i \<and> i \<le> end_num self
        \<and> (\<forall>j\<in>set [start_num self .. i - 1]. \<forall>y.
              body_raises E (base_path self) (keyword self) j = Some y \<longrightarrow> is_ValueError y)
        \<and> body_raises E (base_path self) (keyword self) i = Some x \<and> \<not> is_ValueError x \<longrightarrow>
      raised (generate_ppt E self) = Some x \<and> saved (generate_ppt E self) = None)"
proof (intro conjI impI)
  assume "glob E (glob_pattern bp (IntNumber i) kw) = []"
  then show "body_raises E bp kw i = Some (ValueError (no_file_message (IntNumber i) kw))"
    by (intro body_raises_load_fails NanonisData_no_file)
next
  assume "glob E (glob_pattern bp (IntNumber i) kw) = f # fs
        \<and> splitext_ext f \<notin> {''.sxm'', ''.dat'', ''.3ds''}"
  then show "body_raises E bp kw i
        = Some (ValueError (''Unsupported file extension: '' @ splitext_ext f))"
    by (intro body_raises_load_fails NanonisData_unsupported [of E bp i kw f fs]) simp_all
next
  assume b: "\<forall>j\<in>set [start_num self .. end_num self]. \<forall>y.
          body_raises E (base_path self) (keyword self) j = Some y \<longrightarrow> is_ValueError y"
  from batch_loop_benign [OF b]
  show "raised (generate_ppt E self)
        = pptx_save E (base_path self @ ''PPT/'' @ output_filename self)"
    by (simp add: generate_ppt_raised)
  show "\<forall>j\<in>set [start_num self .. end_num self]. \<forall>y.
          body_raises E (base_path self) (keyword self) j = Some y \<longrightarrow>
          skip_line j y \<in> set (stdout (generate_ppt E self))"
    using batch_loop_skip_line [OF b] generate_ppt_stdout [of E self] by blast
next
  assume a: "start_num self \<le> i \<and> i \<le> end_num self
        \<and> (\<forall>j\<in>set [start_num self .. i - 1]. \<forall>y.
              body_raises E (base_path self) (keyword self) j = Some y \<longrightarrow> is_ValueError y)
        \<and> body_raises E (base_path self) (keyword self) i = Some x \<and> \<not> is_ValueError x"
  then have "[start_num self .. end_num self]
               = [start_num self .. i - 1] @ i # [i + 1 .. end_num self]"
    by (intro upto_split3) simp_all
  with a batch_loop_abort
         [of "[start_num self .. i - 1]" E "base_path self" "keyword self" i x
             "[i + 1 .. end_num self]" "prs self"]
  have "snd (snd (batch_loop E (base_path self) (keyword self)
                       [start_num self .. end_num self] (prs self))) = Some x"
    by simp
  then show r: "raised (generate_ppt E self) = Some x"
    by (simp add: generate_ppt_raised)
  then show "saved (generate_ppt E self) = None"
    by (simp add: generate_ppt_saved)
qed

section \<open>Runs on the test directories\<close>

lemma test_env_sel:
  "glob (test_env names h sg) = dir_glob ''/d/'' names"
  "load_sxm (test_env names h sg) = load_fixed h sg"
  "load_dat (test_env names h sg) = load_fixed dat_header sg"
  "topography_get_z (test_env names h sg) = (\<lambda>d how dir. Inr [Some 0, None, Some 4])"
  "z_spectrum_get_iz (test_env names h sg) = (\<lambda>d. Inr ([Some 0, Some 1], [Some 2, Some 1]))"
  "spectrum_didv_scaled (test_env names h sg) = (\<lambda>d. Inr ([Some 0, Some 1], [Some 1, Some 2]))"
  "spectrum_didv_normalized (test_env names h sg)
     = (\<lambda>d. Inr ([Some 0, Some 1], [Some 1, Some 1]))"
  "spectrum_iv_raw (test_env names h sg) = (\<lambda>d. Inr ([Some 0, Some 1], [Some 0, Some 3]))"
  "savefig (test_env names h sg) = (\<lambda>f. None)"
  "pptx_save (test_env names h sg) = (\<lambda>p. None)"
  "float_of_str (test_env names h sg) = parse_nat_str"
  by (simp_all add: test_env_def)

lemma parse_nat_str_values:
  "parse_nat_str ''0'' = Some 0" "parse_nat_str ''1'' = Some 1" "parse_nat_str ''abc'' = None"
  by code_simp+

lemma test_patterns:
  "glob_pattern ''/d/'' (IntNumber 10) None = ''/d/*_0010.*''"
  "glob_pattern ''/d/'' (IntNumber 11) None = ''/d/*_0011.*''"
  "glob_pattern ''/d/'' (IntNumber 12) None = ''/d/*_0012.*''"
  "glob_pattern ''/d/'' (IntNumber 13) None = ''/d/*_0013.*''"
  by code_simp+

lemma test_paths:
  "splitext_ext ''/d/a_0010.sxm'' = ''.sxm''" "basename ''/d/a_0010.sxm'' = ''a_0010.sxm''"
  "splitext_ext ''/d/b_0012.dat'' = ''.dat''" "basename ''/d/b_0012.dat'' = ''b_0012.dat''"
  "splitext_ext ''/d/b_0011.dat'' = ''.dat''" "basename ''/d/b_0011.dat'' = ''b_0011.dat''"
  "splitext_ext ''/d/b_0010.dat'' = ''.dat''" "basename ''/d/b_0010.dat'' = ''b_0010.dat''"
  "splitext_ext ''/d/a_0013.sxm'' = ''.sxm''" "basename ''/d/a_0013.sxm'' = ''a_0013.sxm''"
  "splitext_ext ''/d/notes_0011.txt'' = ''.txt''"
  by code_simp+

lemma scenario_globs:
  "dir_glob ''/d/'' [''a_0010.sxm'', ''b_0012.dat''] ''/d/*_0010.*'' = [''/d/a_0010.sxm'']"
  "dir_glob ''/d/'' [''a_0010.sxm'', ''b_0012.dat''] ''/d/*_0011.*'' = []"
  "dir_glob ''/d/'' [''a_0010.sxm'', ''b_0012.dat''] ''/d/*_0012.*'' = [''/d/b_0012.dat'']"
  by code_simp+

lemma scenario_loads:
  "snd (NanonisData scenario_env ''/d/'' (IntNumber 10) None) = Inr sxm_record"
  "snd (NanonisData scenario_env ''/d/'' (IntNumber 11) None)
     = Inl (ValueError (no_file_message (IntNumber 11) None))"
  "snd (NanonisData scenario_env ''/d/'' (IntNumber 12) None) = Inr bias_record"
  by (simp_all add: NanonisData_def resolve_filepath_def scenario_env_def test_env_sel
      test_patterns scenario_globs load_by_extension_def test_paths load_fixed_def
      sxm_record_def bias_record_def)

lemma sxm_info_text_ok:
  "\<exists>t. get_sxm_info_text (test_env names h sg) sxm_params = Inr t \<and> t \<noteq> []"
  by (simp add: get_sxm_info_text_def sxm_params_def lookup_key_def ebind_def py_float_def
      test_env_sel parse_nat_str_values py_mul_float_def)

lemma add_slide_sxm_record:
  "snd (add_slide (test_env names h sg) [] sxm_record) = None"
proof -
  have e: "endswith (fname sxm_record) ''.sxm''"
    by (simp add: sxm_record_def endswith_def)
  have li: "''LI_Demod_1_X'' \<notin> dom (signals sxm_record)"
    by (simp add: sxm_record_def)
  have p: "sxm_params ''direction'' = Some (PStr ''down'')"
    "sxm_params ''aspect_ratio'' = Some (PNum 1)"
    by (simp_all add: sxm_params_def)
  have "\<exists>a b. process_sxm_file (test_env names h sg) sxm_record = Inr [a, b]"
    using li
    by (simp add: process_sxm_file_returns [OF sxm_record_params(1) p] test_env_sel Let_def)
  then obtain a b where
    ps: "process_sxm_file (test_env names h sg) sxm_record = Inr [a, b]" by blast
  obtain t where t: "get_sxm_info_text (test_env names h sg) sxm_params = Inr t"
    using sxm_info_text_ok by blast
  show ?thesis
    using e li
    by (simp add: add_slide_def slide_content_def sxm_record_params(1) ps t ebind_def)
qed

lemma bias_record_params:
  "get_dat_parameters bias_record = Inr (Map.empty
     (''bias'' \<mapsto> PStr ''1'', ''current'' \<mapsto> PStr ''0'', ''sweep_start'' \<mapsto> PStr ''0'',
      ''sweep_end'' \<mapsto> PStr ''1'', ''sweep_num'' \<mapsto> PStr ''3'',
      ''comment'' \<mapsto> PStr ''tip A'', ''saved_date'' \<mapsto> PStr ''2024.03.05_10:11:12''))"
  by (simp add: get_dat_parameters_def bias_record_def dat_header_def lookup_key_def
      ebind_def format_date_dat_def)

lemma add_slide_bias_record:
  "snd (add_slide (test_env names h sg) [] bias_record) = None"
proof -
  have e: "\<not> endswith (fname bias_record) ''.sxm''" "endswith (fname bias_record) ''.dat''"
    by (simp_all add: bias_record_def endswith_def)
  have "\<exists>a b c. process_dat_file (test_env names h sg) bias_record = Inr [a, b, c]"
    by (simp add: process_dat_file_def bias_record_params ebind_def test_env_sel save_png_def)
  then obtain a b c where
    ps: "process_dat_file (test_env names h sg) bias_record = Inr [a, b, c]" by blast
  have "\<exists>t. get_dat_info_text (test_env names h sg) (Map.empty
     (''bias'' \<mapsto> PStr ''1'', ''current'' \<mapsto> PStr ''0'', ''sweep_start'' \<mapsto> PStr ''0'',
      ''sweep_end'' \<mapsto> PStr ''1'', ''sweep_num'' \<mapsto> PStr ''3'',
      ''comment'' \<mapsto> PStr ''tip A'', ''saved_date'' \<mapsto> PStr ''2024.03.05_10:11:12'')) = Inr t"
    by (simp add: get_dat_info_text_def lookup_key_def ebind_def py_float_def
      test_env_sel parse_nat_str_values)
  then obtain t where t: "get_dat_info_text (test_env names h sg) (Map.empty
     (''bias'' \<mapsto> PStr ''1'', ''current'' \<mapsto> PStr ''0'', ''sweep_start'' \<mapsto> PStr ''0'',
      ''sweep_end'' \<mapsto> PStr ''1'', ''sweep_num'' \<mapsto> PStr ''3'',
      ''comment'' \<mapsto> PStr ''tip A'', ''saved_date'' \<mapsto> PStr ''2024.03.05_10:11:12'')) = Inr t"
    by blast
  show ?thesis
    using e
    by (simp add: add_slide_def slide_content_def bias_record_params ps t ebind_def)
qed

lemma scenario_body_raises:
  "body_raises scenario_env ''/d/'' None 10 = None"
  "body_raises scenario_env ''/d/'' None 11
     = Some (ValueError (no_file_message (IntNumber 11) None))"
  "body_raises scenario_env ''/d/'' None 12 = None"
proof -
  have a: "snd (add_slide scenario_env [] sxm_record) = None"
    "snd (add_slide scenario_env [] bias_record) = None"
    unfolding scenario_env_def by (rule add_slide_sxm_record, rule add_slide_bias_record)
  show "body_raises scenario_env ''/d/'' None 10 = None"
    by (simp add: body_raises_load_ok [OF scenario_loads(1)] a)
  show "body_raises scenario_env ''/d/'' None 11
     = Some (ValueError (no_file_message (IntNumber 11) None))"
    by (simp add: body_raises_load_fails [OF scenario_loads(2)])
  show "body_raises scenario_env ''/d/'' None 12 = None"
    by (simp add: body_raises_load_ok [OF scenario_loads(3)] a)
qed

lemma upto_10_12: "[10 .. 12] = [10, 11, 12::int]"
  by (simp add: upto_rec_numeral)

lemma scenario_loaded:
  "loaded_files scenario_env ''/d/'' None [10, 11, 12] = [sxm_record, bias_record]"
  by (simp add: loaded_files_def map_filter_simps scenario_loads)

theorem generate_ppt_slides_witness:
  "raised (generate_ppt scenario_env (DataToPPT_init ''/d/'' 10 12 None ''out.pptx'')) = None
   \<and> (\<exists>slides. saved (generate_ppt scenario_env (DataToPPT_init ''/d/'' 10 12 None ''out.pptx''))
                  = Some (''/d/PPT/out.pptx'', slides)
         \<and> map title slides = [''File: a_0010.sxm'', ''File: b_0012.dat''])"
proof -
  have b: "\<forall>j\<in>set [10 .. 12]. \<forall>x. body_raises scenario_env ''/d/'' None j = Some x
             \<longrightarrow> is_ValueError x"
    by (simp add: upto_10_12 scenario_body_raises)
  have s: "pptx_save scenario_env (''/d/'' @ ''PPT/'' @ ''out.pptx'') = None"
    by (simp add: scenario_env_def test_env_sel)
  note t = generate_ppt_slides [of scenario_env "''/d/''" 10 12 None "''out.pptx''"]
  from t b s have r:
    "raised (generate_ppt scenario_env (DataToPPT_init ''/d/'' 10 12 None ''out.pptx'')) = None"
    by blast
  with t show ?thesis
    by (simp add: upto_10_12 scenario_loaded sxm_record_def bias_record_def)
qed

lemma keyerror_globs:
  "dir_glob ''/d/'' [''notes_0011.txt'', ''b_0012.dat'', ''a_0013.sxm''] ''/d/*_0010.*'' = []"
  "dir_glob ''/d/'' [''notes_0011.txt'', ''b_0012.dat'', ''a_0013.sxm''] ''/d/*_0011.*''
     = [''/d/notes_0011.txt'']"
  "dir_glob ''/d/'' [''notes_0011.txt'', ''b_0012.dat'', ''a_0013.sxm''] ''/d/*_0012.*''
     = [''/d/b_0012.dat'']"
  "dir_glob ''/d/'' [''notes_0011.txt'', ''b_0012.dat'', ''a_0013.sxm''] ''/d/*_0013.*''
     = [''/d/a_0013.sxm'']"
  by code_simp+

lemma test_messages:
  "no_file_message (IntNumber 10) None = ''No file found with number 0010''"
  "no_file_message (IntNumber 11) None = ''No file found with number 0011''"
  "str_int 10 = ''10''" "str_int 11 = ''11''"
  by code_simp+

lemma keyerror_loads:
  "snd (NanonisData keyerror_env ''/d/'' (IntNumber 12) None) = Inr bias_record"
  "snd (NanonisData keyerror_env ''/d/'' (IntNumber 13) None) = Inr headerless_record"
  by (simp_all add: NanonisData_def resolve_filepath_def keyerror_env_def test_env_sel
      test_patterns keyerror_globs load_by_extension_def test_paths load_fixed_def
      headerless_record_def bias_record_def)

lemma add_slide_headerless_record:
  "snd (add_slide E [] headerless_record) = Some (KeyError ''scan_pixels'')"
proof -
  have e: "endswith (fname headerless_record) ''.sxm''"
    by (simp add: headerless_record_def endswith_def)
  have "get_scan_parameters headerless_record = Inl (KeyError ''scan_pixels'')"
    using e
    by (simp add: get_scan_parameters_def get_sxm_parameters_def lookup_key_def ebind_def
        headerless_record_def)
  with e show ?thesis
    by (simp add: add_slide_def slide_content_def)
qed

lemma keyerror_body_raises:
  "body_raises keyerror_env ''/d/'' None 12 = None"
  "body_raises keyerror_env ''/d/'' None 13 = Some (KeyError ''scan_pixels'')"
proof -
  have a: "snd (add_slide keyerror_env [] bias_record) = None"
    unfolding keyerror_env_def by (rule add_slide_bias_record)
  show "body_raises keyerror_env ''/d/'' None 12 = None"
    by (simp add: body_raises_load_ok [OF keyerror_loads(1)] a)
  show "body_raises keyerror_env ''/d/'' None 13 = Some (KeyError ''scan_pixels'')"
    by (simp add: body_raises_load_ok [OF keyerror_loads(2)] add_slide_headerless_record)
qed

theorem batch_error_policy_witness:
  "body_raises keyerror_env ''/d/'' None 10
     = Some (ValueError ''No file found with number 0010'')
   \<and> body_raises keyerror_env ''/d/'' None 11
     = Some (ValueError ''Unsupported file extension: .txt'')
   \<and> raised (generate_ppt keyerror_env (DataToPPT_init ''/d/'' 10 12 None ''out.pptx'')) = None
   \<and> ''Skipping number 10: No file found with number 0010''
       \<in> set (stdout (generate_ppt keyerror_env (DataToPPT_init ''/d/'' 10 12 None ''out.pptx'')))
   \<and> ''Skipping number 11: Unsupported file extension: .txt''
       \<in> set (stdout (generate_ppt keyerror_env (DataToPPT_init ''/d/'' 10 12 None ''out.pptx'')))
   \<and> raised (generate_ppt keyerror_env (DataToPPT_init ''/d/'' 10 13 None ''out.pptx''))
       = Some (KeyError ''scan_pixels'')
   \<and> saved (generate_ppt keyerror_env (DataToPPT_init ''/d/'' 10 13 None ''out.pptx'')) = None"
proof -
  have g10: "glob keyerror_env (glob_pattern ''/d/'' (IntNumber 10) None) = []"
    by (simp add: keyerror_env_def test_env_sel test_patterns keyerror_globs)
  have g11: "glob keyerror_env (glob_pattern ''/d/'' (IntNumber 11) None)
               = ''/d/notes_0011.txt'' # []
             \<and> splitext_ext ''/d/notes_0011.txt'' \<notin> {''.sxm'', ''.dat'', ''.3ds''}"
    by (simp add: keyerror_env_def test_env_sel test_patterns keyerror_globs test_paths)
  have r10: "body_raises keyerror_env ''/d/'' None 10
               = Some (ValueError ''No file found with number 0010'')"
    using batch_error_policy [of keyerror_env "''/d/''" 10 None, THEN conjunct1] g10
    by (simp add: test_messages)
  have r11: "body_raises keyerror_env ''/d/'' None 11
               = Some (ValueError ''Unsupported file extension: .txt'')"
    using batch_error_policy
            [of keyerror_env "''/d/''" 11 None "''/d/notes_0011.txt''" "[]",
             THEN conjunct2, THEN conjunct1] g11
    by (simp add: test_paths)
  note r = r10 r11 keyerror_body_raises
  have sel: "start_num (DataToPPT_init bp s e kw out) = s"
    "end_num (DataToPPT_init bp s e kw out) = e"
    "base_path (DataToPPT_init bp s e kw out) = bp"
    "keyword (DataToPPT_init bp s e kw out) = kw"
    "output_filename (DataToPPT_init bp s e kw out) = out" for bp s e kw out
    by (simp_all add: DataToPPT_init_def)
  have b: "\<forall>j\<in>set [10, 11, 12]. \<forall>y. body_raises keyerror_env ''/d/'' None j = Some y
             \<longrightarrow> is_ValueError y"
    by (simp add: r)
  have sv: "pptx_save keyerror_env p = None" for p
    by (simp add: keyerror_env_def test_env_sel)
  have k: "skip_line 10 (ValueError ''No file found with number 0010'')
             = ''Skipping number 10: No file found with number 0010''"
    "skip_line 11 (ValueError ''Unsupported file extension: .txt'')
             = ''Skipping number 11: Unsupported file extension: .txt''"
    by (simp_all add: skip_line_def test_messages)
  from batch_error_policy
         [of keyerror_env _ _ _ _ _ "DataToPPT_init ''/d/'' 10 12 None ''out.pptx''",
          THEN conjunct2, THEN conjunct2, THEN conjunct1]
  have ok: "raised (generate_ppt keyerror_env (DataToPPT_init ''/d/'' 10 12 None ''out.pptx''))
              = None
     \<and> (\<forall>j\<in>set [10, 11, 12]. \<forall>y. body_raises keyerror_env ''/d/'' None j = Some y \<longrightarrow>
          skip_line j y
            \<in> set (stdout (generate_ppt keyerror_env
                              (DataToPPT_init ''/d/'' 10 12 None ''out.pptx''))))"
    using b by (simp add: sel upto_10_12 sv)
  then have lines: "''Skipping number 10: No file found with number 0010''
       \<in> set (stdout (generate_ppt keyerror_env (DataToPPT_init ''/d/'' 10 12 None ''out.pptx'')))"
    "''Skipping number 11: Unsupported file extension: .txt''
       \<in> set (stdout (generate_ppt keyerror_env (DataToPPT_init ''/d/'' 10 12 None ''out.pptx'')))"
    using r10 r11 k by auto
  from batch_error_policy
         [of keyerror_env _ 13 _ _ _ "DataToPPT_init ''/d/'' 10 13 None ''out.pptx''"
             "KeyError ''scan_pixels''",
          THEN conjunct2, THEN conjunct2, THEN conjunct2]
  have ab: "raised (generate_ppt keyerror_env (DataToPPT_init ''/d/'' 10 13 None ''out.pptx''))
       = Some (KeyError ''scan_pixels'')
   \<and> saved (generate_ppt keyerror_env (DataToPPT_init ''/d/'' 10 13 None ''out.pptx'')) = None"
    using b by (simp add: sel upto_10_12 r)
  from r10 r11 ok lines ab show ?thesis by blast
qed

text \<open>
  A topography file whose header holds \<open>abc\<close> as bias: the caption cannot be built,
  \<open>float\<close> raises \<open>ValueError\<close> inside \<open>add_slide\<close>, the loop logs it and goes on, and
  the document is saved with both slides.
\<close>

lemma malformed_loads:
  "snd (NanonisData malformed_env ''/d/'' (IntNumber 10) None) = Inr malformed_record"
  "snd (NanonisData malformed_env ''/d/'' (IntNumber 11) None)
     = Inl (ValueError (no_file_message (IntNumber 11) None))"
  "snd (NanonisData malformed_env ''/d/'' (IntNumber 12) None) = Inr bias_record"
  by (simp_all add: NanonisData_def resolve_filepath_def malformed_env_def test_env_sel
      test_patterns scenario_globs load_by_extension_def test_paths load_fixed_def
      malformed_record_def bias_record_def)

lemma malformed_record_params:
  "\<exists>params. get_scan_parameters malformed_record = Inr params
     \<and> params ''direction'' = Some (PStr ''down'')
     \<and> params ''aspect_ratio'' = Some (PNum 1)
     \<and> params ''bias'' = Some (PStr ''abc'')"
  by (simp add: get_scan_parameters_def malformed_record_def endswith_def
      get_sxm_parameters_def sxm_header_def lookup_key_def ebind_def aspect_ratio_of_def
      format_date_sxm_def)

lemma add_slide_malformed_record:
  "snd (add_slide (test_env names h sg) [] malformed_record)
     = Some (ValueError (''could not convert string to float: '' @ [CHR 0x27] @ ''abc''
                           @ [CHR 0x27]))"
proof -
  have e: "endswith (fname malformed_record) ''.sxm''"
    by (simp add: malformed_record_def endswith_def)
  have li: "''LI_Demod_1_X'' \<notin> dom (signals malformed_record)"
    by (simp add: malformed_record_def)
  from malformed_record_params obtain params where
    p: "get_scan_parameters malformed_record = Inr params"
       "params ''direction'' = Some (PStr ''down'')"
       "params ''aspect_ratio'' = Some (PNum 1)"
    and bias: "params ''bias'' = Some (PStr ''abc'')"
    by blast
  have "\<exists>a b. process_sxm_file (test_env names h sg) malformed_record = Inr [a, b]"
    using li by (simp add: process_sxm_file_returns [OF p] test_env_sel Let_def)
  then obtain a b where
    ps: "process_sxm_file (test_env names h sg) malformed_record = Inr [a, b]" by blast
  have t: "get_sxm_info_text (test_env names h sg) params
             = Inl (ValueError (''could not convert string to float: '' @ [CHR 0x27] @ ''abc''
                           @ [CHR 0x27]))"
    using bias
    by (simp add: get_sxm_info_text_def lookup_key_def ebind_def py_float_def test_env_sel
        parse_nat_str_values)
  show ?thesis
    using e li by (simp add: add_slide_def slide_content_def p(1) ps t ebind_def)
qed

theorem value_error_in_add_slide_is_skipped_counterexample:
  "body_raises malformed_env ''/d/'' None 10
     = Some (ValueError (''could not convert string to float: '' @ [CHR 0x27] @ ''abc''
                           @ [CHR 0x27]))
   \<and> raised (generate_ppt malformed_env (DataToPPT_init ''/d/'' 10 12 None ''out.pptx'')) = None
   \<and> map title (snd (the (saved (generate_ppt malformed_env
                                   (DataToPPT_init ''/d/'' 10 12 None ''out.pptx'')))))
       = [''File: a_0010.sxm'', ''File: b_0012.dat'']"
proof -
  have a: "snd (add_slide malformed_env [] malformed_record)
             = Some (ValueError (''could not convert string to float: '' @ [CHR 0x27] @ ''abc''
                           @ [CHR 0x27]))"
    "snd (add_slide malformed_env [] bias_record) = None"
    unfolding malformed_env_def by (rule add_slide_malformed_record, rule add_slide_bias_record)
  have r: "body_raises malformed_env ''/d/'' None 10
             = Some (ValueError (''could not convert string to float: '' @ [CHR 0x27] @ ''abc''
                           @ [CHR 0x27]))"
    "body_raises malformed_env ''/d/'' None 11
             = Some (ValueError (no_file_message (IntNumber 11) None))"
    "body_raises malformed_env ''/d/'' None 12 = None"
    by (simp_all add: body_raises_load_ok [OF malformed_loads(1)]
        body_raises_load_fails [OF malformed_loads(2)]
        body_raises_load_ok [OF malformed_loads(3)] a)
  have b: "\<forall>j\<in>set [10 .. 12]. \<forall>y. body_raises malformed_env ''/d/'' None j = Some y
             \<longrightarrow> is_ValueError y"
    by (simp add: upto_10_12 r)
  have l: "snd (snd (batch_loop malformed_env ''/d/'' None [10 .. 12] [])) = None"
    using b by (rule batch_loop_benign)
  have sv: "pptx_save malformed_env p = None" for p
    by (simp add: malformed_env_def test_env_sel)
  have ra: "raised (generate_ppt malformed_env (DataToPPT_init ''/d/'' 10 12 None ''out.pptx''))
              = None"
    using l by (simp add: generate_ppt_raised DataToPPT_init_def sv del: upto.simps)
  have ld: "loaded_files malformed_env ''/d/'' None [10, 11, 12]
              = [malformed_record, bias_record]"
    by (simp add: loaded_files_def map_filter_simps malformed_loads)
  have "map title (fst (batch_loop malformed_env ''/d/'' None [10 .. 12] []))
          = [''File: a_0010.sxm'', ''File: b_0012.dat'']"
    using batch_loop_titles [OF l]
    by (simp add: upto_10_12 ld malformed_record_def bias_record_def)
  with ra r(1) show ?thesis
    by (simp add: generate_ppt_saved DataToPPT_init_def)
qed

end
